theory Spec2Isabelle
  imports Complex_Main "HOL-Library.Monad_Syntax"
begin

section \<open>Data model\<close>

text \<open>
  Values of TypeScript type \<open>unknown\<close> (raw tool input and output, plan entries, the
  adapter configuration document read from a JSON file) are JSON values. An object is its
  property list; \<open>map_of\<close> reads a property, \<open>None\<close> standing for \<open>undefined\<close>.
\<close>

datatype json =
    JNull
  | JBool bool
  | JNum rat
  | JStr string
  | JArr "json list"
  | JObj "(string \<times> json) list"

text \<open>The discriminator \<open>type\<close> shared by parsed updates and trajectory steps.\<close>

datatype step_kind = Kthought | Kmessage | Ktool_call | Kplan

text \<open>
  Modelled from the spec: the declarations of \<open>TrajectoryStep\<close> and
  \<open>TrajectoryRichness\<close> (schemas.ts) are not among the sources. A step is a
  discriminated union over \<open>type\<close> with the variants thought and message (content,
  timestamp), tool_call (name, status, optional input and output, timestamp, optional
  duration) and plan (entries, timestamp); these are the fields the object literals of
  \<open>extractTrajectory\<close> write. The \<open>tool_call\<close> variant is the only one that is
  mutated after it was pushed.
\<close>

record tool_call_step =
  tc_name :: string
  tc_status :: string
  tc_input :: "json option"
  tc_output :: "json option"
  tc_timestamp :: int
  tc_duration :: "int option"

datatype TrajectoryStep =
    Thought string int
  | Message string int
  | ToolCallStep tool_call_step
  | Plan "json list" int

fun step_type :: "TrajectoryStep \<Rightarrow> step_kind" where
  "step_type (Thought c t) = Kthought"
| "step_type (Message c t) = Kmessage"
| "step_type (ToolCallStep tc) = Ktool_call"
| "step_type (Plan es t) = Kplan"

datatype TrajectoryRichness = full | messages_only | minimal

section \<open>Derived values of a trajectory (core.ts)\<close>

text \<open>
  \<open>Array.prototype.join\<close>: the elements in order, the separator before every element
  but the first; the empty array gives the empty string.
\<close>

fun join_from :: "string \<Rightarrow> string \<Rightarrow> string list \<Rightarrow> string" where
  "join_from sep acc [] = acc"
| "join_from sep acc (x # xs) = join_from sep (acc @ sep @ x) xs"

fun join :: "string \<Rightarrow> string list \<Rightarrow> string" where
  "join sep [] = []"
| "join sep (x # xs) = join_from sep x xs"

fun message_content :: "TrajectoryStep \<Rightarrow> string" where
  "message_content (Message c t) = c"
| "message_content (Thought c t) = c"
| "message_content _ = []"

definition extractOutput :: "TrajectoryStep list \<Rightarrow> string" where
  "extractOutput trajectory =
     join [CHR 0x0A]
       (map message_content (filter (\<lambda>step. step_type step = Kmessage) trajectory))"

fun step_failed :: "TrajectoryStep \<Rightarrow> bool" where
  "step_failed (ToolCallStep tc) = (tc_status tc = ''failed'')"
| "step_failed _ = False"

definition hasToolErrors :: "TrajectoryStep list \<Rightarrow> bool" where
  "hasToolErrors trajectory = list_ex step_failed trajectory"

text \<open>
  \<open>detectTrajectoryRichness\<close>: one pass over the steps with the flag \<open>hasMessages\<close>,
  returning \<open>full\<close> at the first thought, tool call or plan.
\<close>

fun richness_scan :: "bool \<Rightarrow> TrajectoryStep list \<Rightarrow> TrajectoryRichness" where
  "richness_scan hasMessages [] = (if hasMessages then messages_only else minimal)"
| "richness_scan hasMessages (step # rest) =
     (if step_type step = Kthought \<or> step_type step = Ktool_call \<or> step_type step = Kplan
      then full
      else richness_scan (if step_type step = Kmessage then True else hasMessages) rest)"

definition detectTrajectoryRichness :: "TrajectoryStep list \<Rightarrow> TrajectoryRichness" where
  "detectTrajectoryRichness trajectory = richness_scan False trajectory"

definition decides_full :: "TrajectoryStep \<Rightarrow> bool" where
  "decides_full step \<longleftrightarrow> step_type step \<in> {Kthought, Ktool_call, Kplan}"

section \<open>The headless trajectory extractor (core.ts, first \<open>extractTrajectory\<close>)\<close>

text \<open>
  Modelled from the spec: the declaration of \<open>ParsedUpdate\<close> (headless-output-parser.ts)
  is not among the sources. It is the interpreter's classified update: the kind, and the
  optional extracted fields \<open>content\<close>, \<open>title\<close> and \<open>status\<close>, which are the fields
  \<open>extractTrajectory\<close> reads. \<open>None\<close> is an absent (nullish) field.
\<close>

record ParsedUpdate =
  pu_type :: step_kind
  pu_content :: "string option"
  pu_title :: "string option"
  pu_status :: "string option"

text \<open>\<open>a ?? b\<close>\<close>

fun nullish :: "'a option \<Rightarrow> 'a \<Rightarrow> 'a" where
  "nullish None d = d"
| "nullish (Some v) d = v"

text \<open>
  The text of an integral number inside a template literal: decimal digits, most
  significant first, with a minus sign for a negative number.
\<close>

definition digit_char :: "nat \<Rightarrow> char" where
  "digit_char d = char_of (48 + d)"

fun string_of_nat :: "nat \<Rightarrow> string" where
  "string_of_nat n =
     (if n < 10 then [digit_char n] else string_of_nat (n div 10) @ [digit_char (n mod 10)])"

declare string_of_nat.simps [simp del]

definition string_of_int :: "int \<Rightarrow> string" where
  "string_of_int i =
     (if i < 0 then CHR ''-'' # string_of_nat (nat (- i)) else string_of_nat (nat i))"

text \<open>
  The loop state. \<open>Date.now()\<close> is an effect: the parameter \<open>now\<close> of the functions below
  is the sequence of values its successive calls return, and \<open>tick\<close> counts the calls made
  so far. \<open>toolCallMap\<close> holds, per identity, the start time and a reference to the step
  already pushed; the trajectory only grows, so the reference is the step's index, and
  mutating the referenced step is an update of the trajectory at that index.
\<close>

record extract_state =
  trajectory :: "TrajectoryStep list"
  toolCallMap :: "string \<rightharpoonup> int \<times> nat"
  tick :: nat

definition init_state :: extract_state where
  "init_state = \<lparr>trajectory = [], toolCallMap = Map.empty, tick = 0\<rparr>"

definition push :: "TrajectoryStep \<Rightarrow> extract_state \<Rightarrow> extract_state" where
  "push step s = s\<lparr>trajectory := trajectory s @ [step]\<rparr>"

text \<open>\<open>existing.step.status = ...; existing.step.duration = ...\<close>\<close>

fun set_status_duration :: "string \<Rightarrow> int \<Rightarrow> TrajectoryStep \<Rightarrow> TrajectoryStep" where
  "set_status_duration st d (ToolCallStep tc) =
     ToolCallStep (tc\<lparr>tc_status := st, tc_duration := Some d\<rparr>)"
| "set_status_duration st d step = step"

text \<open>
  \<open>update.title ?? `tool_${Date.now()}`\<close>, evaluated after the call of \<open>Date.now()\<close> that
  gave \<open>timestamp\<close>: the clock is read a second time only when there is no title.
\<close>

definition toolCallId_of :: "(nat \<Rightarrow> int) \<Rightarrow> extract_state \<Rightarrow> ParsedUpdate \<Rightarrow> string" where
  "toolCallId_of now s update =
     (case pu_title update of
        Some t \<Rightarrow> t
      | None \<Rightarrow> ''tool_'' @ string_of_int (now (Suc (tick s))))"

definition after_clock_reads :: "extract_state \<Rightarrow> ParsedUpdate \<Rightarrow> extract_state" where
  "after_clock_reads s update =
     (if pu_type update = Ktool_call \<and> pu_title update = None
      then s\<lparr>tick := Suc (Suc (tick s))\<rparr>
      else s\<lparr>tick := Suc (tick s)\<rparr>)"

text \<open>The body of the \<open>for\<close> loop.\<close>

definition processUpdate ::
  "(nat \<Rightarrow> int) \<Rightarrow> int \<Rightarrow> extract_state \<Rightarrow> ParsedUpdate \<Rightarrow> extract_state" where
  "processUpdate now startTime s update =
     (let timestamp = now (tick s) - startTime;
          toolCallId = toolCallId_of now s update;
          s' = after_clock_reads s update
      in case pu_type update of
           Kthought \<Rightarrow> push (Thought (nullish (pu_content update) []) timestamp) s'
         | Kmessage \<Rightarrow> push (Message (nullish (pu_content update) []) timestamp) s'
         | Ktool_call \<Rightarrow>
             (case toolCallMap s' toolCallId of
                Some (start, i) \<Rightarrow>
                  if pu_status update = Some ''completed''
                  then s'\<lparr>trajectory :=
                         (trajectory s')[i := set_status_duration ''completed''
                                                 (timestamp - start) (trajectory s' ! i)]\<rparr>
                  else s'
              | None \<Rightarrow>
                  (push (ToolCallStep
                           \<lparr>tc_name = nullish (pu_title update) ''unknown'',
                            tc_status = nullish (pu_status update) ''pending'',
                            tc_input = None, tc_output = None,
                            tc_timestamp = timestamp, tc_duration = None\<rparr>) s')
                    \<lparr>toolCallMap :=
                       (toolCallMap s')(toolCallId \<mapsto> (timestamp, length (trajectory s')))\<rparr>)
         | Kplan \<Rightarrow> push (Plan [] timestamp) s')"

definition extractRun ::
  "(nat \<Rightarrow> int) \<Rightarrow> int \<Rightarrow> ParsedUpdate list \<Rightarrow> extract_state" where
  "extractRun now startTime updates = foldl (processUpdate now startTime) init_state updates"

definition extractTrajectory ::
  "(nat \<Rightarrow> int) \<Rightarrow> int \<Rightarrow> ParsedUpdate list \<Rightarrow> TrajectoryStep list" where
  "extractTrajectory now startTime updates = trajectory (extractRun now startTime updates)"

text \<open>A clock all of whose reads fall in one millisecond.\<close>

definition stopped_clock :: "int \<Rightarrow> nat \<Rightarrow> int" where
  "stopped_clock t n = t"

text \<open>A clock that counts up by one per read, and one that is set back by one per read.\<close>

definition forward_clock :: "nat \<Rightarrow> int" where
  "forward_clock n = int n"


text \<open>
  The identities the loop derives for the tool-call updates of a list, in order: for
  each tool-call update the value of \<open>toolCallId\<close> in the state the update is processed in.
\<close>

fun derived_identities ::
  "(nat \<Rightarrow> int) \<Rightarrow> int \<Rightarrow> extract_state \<Rightarrow> ParsedUpdate list \<Rightarrow> string list" where
  "derived_identities now startTime s [] = []"
| "derived_identities now startTime s (u # us) =
     (if pu_type u = Ktool_call then [toolCallId_of now s u] else []) @
     derived_identities now startTime (processUpdate now startTime s u) us"

subsection \<open>Invariants of the loop\<close>

definition correlated :: "extract_state \<Rightarrow> bool" where
  "correlated s \<longleftrightarrow>
     (\<forall>id start i. toolCallMap s id = Some (start, i) \<longrightarrow>
        i < length (trajectory s) \<and> step_type (trajectory s ! i) = Ktool_call) \<and>
     (\<forall>id id' start start' i.
        toolCallMap s id = Some (start, i) \<and> toolCallMap s id' = Some (start', i) \<longrightarrow> id = id') \<and>
     (\<forall>i < length (trajectory s). step_type (trajectory s ! i) = Ktool_call \<longrightarrow>
        (\<exists>id start. toolCallMap s id = Some (start, i)))"

definition started_in_past :: "(nat \<Rightarrow> int) \<Rightarrow> int \<Rightarrow> extract_state \<Rightarrow> bool" where
  "started_in_past now st s \<longleftrightarrow>
     (\<forall>id start i. toolCallMap s id = Some (start, i) \<longrightarrow> (\<exists>t < tick s. start = now t - st))"

fun step_named :: "string \<Rightarrow> TrajectoryStep \<Rightarrow> bool" where
  "step_named x (ToolCallStep tc) = (tc_name tc = x)"
| "step_named x step = False"


definition named_ok :: "extract_state \<Rightarrow> bool" where
  "named_ok s \<longleftrightarrow>
     (\<forall>i < length (trajectory s). \<forall>x. x \<noteq> ''unknown'' \<and> step_named x (trajectory s ! i) \<longrightarrow>
        (\<exists>start. toolCallMap s x = Some (start, i)))"

definition run_ok :: "(nat \<Rightarrow> int) \<Rightarrow> int \<Rightarrow> extract_state \<Rightarrow> bool" where
  "run_ok now st s \<longleftrightarrow> correlated s \<and> started_in_past now st s \<and> named_ok s"


section \<open>The ACP trajectory extractor (core.ts, second \<open>extractTrajectory\<close>)\<close>

text \<open>
  \<open>SessionNotification\<close> and \<open>ToolCall\<close> are types of the protocol SDK. A content block
  is a text block or a block of another type; a session update is one of the four kinds
  the extractor looks at, or any other kind. Optional fields are options.
\<close>

datatype ContentBlock = TextContent string | OtherContent json

record ToolCall =
  call_toolCallId :: string
  call_title :: string
  call_status :: "string option"
  call_content :: "json option"
  call_rawInput :: "json option"
  call_rawOutput :: "json option"

datatype SessionUpdate =
    agent_thought_chunk ContentBlock
  | agent_message_chunk ContentBlock
  | tool_call ToolCall
  | plan "json list"
  | other_session_update

record SessionNotification =
  sessionId :: string
  update :: SessionUpdate

text \<open>Truthiness of an optional value, as \<open>if (v)\<close> tests it.\<close>

fun truthy :: "json option \<Rightarrow> bool" where
  "truthy None = False"
| "truthy (Some JNull) = False"
| "truthy (Some (JBool b)) = b"
| "truthy (Some (JNum n)) = (n \<noteq> 0)"
| "truthy (Some (JStr s)) = (s \<noteq> [])"
| "truthy (Some (JArr vs)) = True"
| "truthy (Some (JObj ps)) = True"

text \<open>The four assignments to \<open>existing.step\<close>, in the order of the source.\<close>

fun merge_tool_call :: "ToolCall \<Rightarrow> int \<Rightarrow> TrajectoryStep \<Rightarrow> TrajectoryStep" where
  "merge_tool_call toolCall d (ToolCallStep tc) =
     (let tc1 = tc\<lparr>tc_status := nullish (call_status toolCall) ''pending''\<rparr>;
          tc2 = (if truthy (call_content toolCall)
                 then tc1\<lparr>tc_output := call_content toolCall\<rparr> else tc1);
          tc3 = (if truthy (call_rawOutput toolCall)
                 then tc2\<lparr>tc_output := call_rawOutput toolCall\<rparr> else tc2)
      in ToolCallStep (tc3\<lparr>tc_duration := Some d\<rparr>))"
| "merge_tool_call toolCall d step = step"

definition processNotification ::
  "(nat \<Rightarrow> int) \<Rightarrow> int \<Rightarrow> extract_state \<Rightarrow> SessionNotification \<Rightarrow> extract_state" where
  "processNotification now startTime s notification =
     (let timestamp = now (tick s) - startTime;
          s' = s\<lparr>tick := Suc (tick s)\<rparr>
      in case update notification of
           agent_thought_chunk (TextContent text) \<Rightarrow> push (Thought text timestamp) s'
         | agent_thought_chunk (OtherContent v) \<Rightarrow> s'
         | agent_message_chunk (TextContent text) \<Rightarrow> push (Message text timestamp) s'
         | agent_message_chunk (OtherContent v) \<Rightarrow> s'
         | tool_call toolCall \<Rightarrow>
             (case toolCallMap s' (call_toolCallId toolCall) of
                Some (start, i) \<Rightarrow>
                  s'\<lparr>trajectory :=
                       (trajectory s')[i := merge_tool_call toolCall (timestamp - start)
                                              (trajectory s' ! i)]\<rparr>
              | None \<Rightarrow>
                  (push (ToolCallStep
                           \<lparr>tc_name = call_title toolCall,
                            tc_status = nullish (call_status toolCall) ''pending'',
                            tc_input = call_rawInput toolCall, tc_output = None,
                            tc_timestamp = timestamp, tc_duration = None\<rparr>) s')
                    \<lparr>toolCallMap :=
                       (toolCallMap s')(call_toolCallId toolCall \<mapsto>
                                          (timestamp, length (trajectory s')))\<rparr>)
         | plan entries \<Rightarrow> push (Plan entries timestamp) s'
         | other_session_update \<Rightarrow> s')"

definition extractRun_acp ::
  "(nat \<Rightarrow> int) \<Rightarrow> int \<Rightarrow> SessionNotification list \<Rightarrow> extract_state" where
  "extractRun_acp now startTime notifications =
     foldl (processNotification now startTime) init_state notifications"

definition extractTrajectory_acp ::
  "(nat \<Rightarrow> int) \<Rightarrow> int \<Rightarrow> SessionNotification list \<Rightarrow> TrajectoryStep list" where
  "extractTrajectory_acp now startTime notifications =
     trajectory (extractRun_acp now startTime notifications)"

text \<open>The protocol call ids of the tool-call notifications of a list, in order.\<close>

fun acp_identities :: "SessionNotification list \<Rightarrow> string list" where
  "acp_identities [] = []"
| "acp_identities (n # ns) =
     (case update n of
        tool_call toolCall \<Rightarrow> [call_toolCallId toolCall]
      | other \<Rightarrow> []) @ acp_identities ns"

section \<open>Steps and identities\<close>

text \<open>The index of the step an identity is registered for, and the indices of the
  tool-call steps of a trajectory.\<close>

definition entry_index :: "extract_state \<Rightarrow> string \<Rightarrow> nat" where
  "entry_index s k = (case toolCallMap s k of Some (start, i) \<Rightarrow> i | None \<Rightarrow> 0)"

definition tool_call_indices :: "TrajectoryStep list \<Rightarrow> nat set" where
  "tool_call_indices traj = {i. i < length traj \<and> step_type (traj ! i) = Ktool_call}"


section \<open>Adapter configuration schemas (headless.schemas.ts)\<close>

text \<open>
  The schemas are built with the validation library zod. A schema is modelled by its
  \<open>parse\<close> function on a JSON value: \<open>Some\<close> of the parsed value, or \<open>None\<close> when
  \<open>parse\<close> throws a \<open>ZodError\<close>. The combinators have the library's documented
  behaviour: \<open>z.object\<close> requires an object, parses the declared keys and drops every
  other key from its result (no schema here calls \<open>strict\<close>); \<open>optional\<close> accepts
  an absent key; \<open>refine\<close> rejects a parsed value that fails the predicate;
  \<open>z.union\<close> returns the result of the first option that parses.
\<close>

fun z_string :: "json \<Rightarrow> string option" where
  "z_string (JStr s) = Some s"
| "z_string j = None"

fun z_boolean :: "json \<Rightarrow> bool option" where
  "z_boolean (JBool b) = Some b"
| "z_boolean j = None"

fun z_number :: "json \<Rightarrow> rat option" where
  "z_number (JNum n) = Some n"
| "z_number j = None"

fun z_literal :: "rat \<Rightarrow> json \<Rightarrow> rat option" where
  "z_literal v (JNum n) = (if n = v then Some n else None)"
| "z_literal v j = None"

fun z_enum :: "(string \<times> 'a) list \<Rightarrow> json \<Rightarrow> 'a option" where
  "z_enum values (JStr s) = map_of values s"
| "z_enum values j = None"

fun z_array :: "(json \<Rightarrow> 'a option) \<Rightarrow> json \<Rightarrow> 'a list option" where
  "z_array element (JArr vs) = those (map element vs)"
| "z_array element j = None"

text \<open>A declared key of an object schema: required, or wrapped in \<open>optional\<close>.\<close>

fun required :: "(json \<Rightarrow> 'a option) \<Rightarrow> json option \<Rightarrow> 'a option" where
  "required schema None = None"
| "required schema (Some j) = schema j"

fun optional :: "(json \<Rightarrow> 'a option) \<Rightarrow> json option \<Rightarrow> 'a option option" where
  "optional schema None = Some None"
| "optional schema (Some j) = map_option Some (schema j)"

fun z_object :: "((string \<rightharpoonup> json) \<Rightarrow> 'a option) \<Rightarrow> json \<Rightarrow> 'a option" where
  "z_object shape (JObj ps) = shape (map_of ps)"
| "z_object shape j = None"

definition refine :: "('a \<Rightarrow> bool) \<Rightarrow> 'a option \<Rightarrow> 'a option" where
  "refine check parsed =
     (case parsed of None \<Rightarrow> None | Some d \<Rightarrow> if check d then Some d else None)"

definition z_union :: "(json \<Rightarrow> 'a option) \<Rightarrow> (json \<Rightarrow> 'a option) \<Rightarrow> json \<Rightarrow> 'a option" where
  "z_union first second j = (case first j of Some v \<Rightarrow> Some v | None \<Rightarrow> second j)"

record OutputEventMatch =
  match_path :: string
  match_value :: string

definition OutputEventMatchSchema :: "json \<Rightarrow> OutputEventMatch option" where
  "OutputEventMatchSchema =
     z_object (\<lambda>obj. do {
       p \<leftarrow> required z_string (obj ''path'');
       v \<leftarrow> required z_string (obj ''value'');
       Some \<lparr>match_path = p, match_value = v\<rparr> })"

record OutputEventExtract =
  extract_content :: "string option"
  extract_title :: "string option"
  extract_status :: "string option"

definition OutputEventExtractSchema :: "json \<Rightarrow> OutputEventExtract option" where
  "OutputEventExtractSchema =
     z_object (\<lambda>obj. do {
       c \<leftarrow> optional z_string (obj ''content'');
       t \<leftarrow> optional z_string (obj ''title'');
       s \<leftarrow> optional z_string (obj ''status'');
       Some \<lparr>extract_content = c, extract_title = t, extract_status = s\<rparr> })"

record OutputEventMapping =
  mapping_match :: OutputEventMatch
  mapping_emitAs :: step_kind
  mapping_extract :: "OutputEventExtract option"

definition OutputEventMappingSchema :: "json \<Rightarrow> OutputEventMapping option" where
  "OutputEventMappingSchema =
     z_object (\<lambda>obj. do {
       m \<leftarrow> required OutputEventMatchSchema (obj ''match'');
       e \<leftarrow> required (z_enum [(''thought'', Kthought), (''tool_call'', Ktool_call),
                                (''message'', Kmessage), (''plan'', Kplan)]) (obj ''emitAs'');
       x \<leftarrow> optional OutputEventExtractSchema (obj ''extract'');
       Some \<lparr>mapping_match = m, mapping_emitAs = e, mapping_extract = x\<rparr> })"

datatype stdin_format = format_text | format_json

record PromptConfig =
  prompt_flag :: "string option"
  prompt_stdin :: "bool option"
  prompt_stdinFormat :: "stdin_format option"

text \<open>\<open>!(data.flag && data.stdin)\<close>: a string is truthy when it is not empty.\<close>

definition flag_and_stdin :: "PromptConfig \<Rightarrow> bool" where
  "flag_and_stdin d \<longleftrightarrow>
     (case prompt_flag d of None \<Rightarrow> False | Some f \<Rightarrow> f \<noteq> []) \<and>
     (case prompt_stdin d of None \<Rightarrow> False | Some b \<Rightarrow> b)"

definition PromptConfigSchema :: "json \<Rightarrow> PromptConfig option" where
  "PromptConfigSchema j =
     refine (\<lambda>d. \<not> flag_and_stdin d)
       (z_object (\<lambda>obj. do {
          f \<leftarrow> optional z_string (obj ''flag'');
          s \<leftarrow> optional z_boolean (obj ''stdin'');
          sf \<leftarrow> optional (z_enum [(''text'', format_text), (''json'', format_json)])
                  (obj ''stdinFormat'');
          Some \<lparr>prompt_flag = f, prompt_stdin = s, prompt_stdinFormat = sf\<rparr> }) j)"

record OutputConfig =
  output_flag :: string
  output_value :: string

definition OutputConfigSchema :: "json \<Rightarrow> OutputConfig option" where
  "OutputConfigSchema =
     z_object (\<lambda>obj. do {
       f \<leftarrow> required z_string (obj ''flag'');
       v \<leftarrow> required z_string (obj ''value'');
       Some \<lparr>output_flag = f, output_value = v\<rparr> })"

record ResumeConfig =
  resume_flag :: string
  resume_sessionIdPath :: string

definition ResumeConfigSchema :: "json \<Rightarrow> ResumeConfig option" where
  "ResumeConfigSchema =
     z_object (\<lambda>obj. do {
       f \<leftarrow> required z_string (obj ''flag'');
       p \<leftarrow> required z_string (obj ''sessionIdPath'');
       Some \<lparr>resume_flag = f, resume_sessionIdPath = p\<rparr> })"

record ResultConfig =
  result_matchPath :: string
  result_matchValue :: string
  result_contentPath :: string

definition ResultConfigSchema :: "json \<Rightarrow> ResultConfig option" where
  "ResultConfigSchema =
     z_object (\<lambda>obj. do {
       mp \<leftarrow> required z_string (obj ''matchPath'');
       mv \<leftarrow> required z_string (obj ''matchValue'');
       cp \<leftarrow> required z_string (obj ''contentPath'');
       Some \<lparr>result_matchPath = mp, result_matchValue = mv, result_contentPath = cp\<rparr> })"

datatype session_mode = stream | iterative

datatype history_template =
    template_string string
  | template_object "string option" string

definition historyTemplateObjectSchema :: "json \<Rightarrow> history_template option" where
  "historyTemplateObjectSchema =
     z_object (\<lambda>obj. do {
       sys \<leftarrow> optional z_string (obj ''system'');
       tf \<leftarrow> required z_string (obj ''turnFormat'');
       Some (template_object sys tf) })"

text \<open>
  \<open>HeadlessAdapterConfig\<close>, the union of the parsed values of the two versions. A parsed
  version 1 document has no \<open>timeout\<close> key and its history template is a string.
\<close>

record HeadlessAdapterConfig =
  version :: rat
  name :: string
  command :: "string list"
  sessionMode :: session_mode
  timeout :: "rat option"
  prompt :: PromptConfig
  output_config :: OutputConfig
  autoApprove :: "string list option"
  resume :: "ResumeConfig option"
  cwdFlag :: "string option"
  outputEvents :: "OutputEventMapping list"
  result_config :: ResultConfig
  historyTemplate :: "history_template option"

definition HeadlessAdapterSchemaV1 :: "json \<Rightarrow> HeadlessAdapterConfig option" where
  "HeadlessAdapterSchemaV1 =
     z_object (\<lambda>obj. do {
       v \<leftarrow> required (z_literal 1) (obj ''version'');
       n \<leftarrow> required z_string (obj ''name'');
       c \<leftarrow> required (z_array z_string) (obj ''command'');
       sm \<leftarrow> required (z_enum [(''stream'', stream), (''iterative'', iterative)])
               (obj ''sessionMode'');
       p \<leftarrow> required PromptConfigSchema (obj ''prompt'');
       out \<leftarrow> required OutputConfigSchema (obj ''output'');
       aa \<leftarrow> optional (z_array z_string) (obj ''autoApprove'');
       r \<leftarrow> optional ResumeConfigSchema (obj ''resume'');
       cf \<leftarrow> optional z_string (obj ''cwdFlag'');
       oe \<leftarrow> required (z_array OutputEventMappingSchema) (obj ''outputEvents'');
       res \<leftarrow> required ResultConfigSchema (obj ''result'');
       ht \<leftarrow> optional (\<lambda>j. map_option template_string (z_string j)) (obj ''historyTemplate'');
       Some \<lparr>version = v, name = n, command = c, sessionMode = sm, timeout = None,
             prompt = p, output_config = out, autoApprove = aa, resume = r, cwdFlag = cf,
             outputEvents = oe, result_config = res, historyTemplate = ht\<rparr> })"

definition HeadlessAdapterSchemaV2 :: "json \<Rightarrow> HeadlessAdapterConfig option" where
  "HeadlessAdapterSchemaV2 =
     z_object (\<lambda>obj. do {
       v \<leftarrow> required (z_literal 2) (obj ''version'');
       n \<leftarrow> required z_string (obj ''name'');
       c \<leftarrow> required (z_array z_string) (obj ''command'');
       sm \<leftarrow> required (z_enum [(''stream'', stream), (''iterative'', iterative)])
               (obj ''sessionMode'');
       t \<leftarrow> optional z_number (obj ''timeout'');
       p \<leftarrow> required PromptConfigSchema (obj ''prompt'');
       out \<leftarrow> required OutputConfigSchema (obj ''output'');
       aa \<leftarrow> optional (z_array z_string) (obj ''autoApprove'');
       r \<leftarrow> optional ResumeConfigSchema (obj ''resume'');
       cf \<leftarrow> optional z_string (obj ''cwdFlag'');
       oe \<leftarrow> required (z_array OutputEventMappingSchema) (obj ''outputEvents'');
       res \<leftarrow> required ResultConfigSchema (obj ''result'');
       ht \<leftarrow> optional (z_union (\<lambda>j. map_option template_string (z_string j))
                                 historyTemplateObjectSchema) (obj ''historyTemplate'');
       Some \<lparr>version = v, name = n, command = c, sessionMode = sm, timeout = t,
             prompt = p, output_config = out, autoApprove = aa, resume = r, cwdFlag = cf,
             outputEvents = oe, result_config = res, historyTemplate = ht\<rparr> })"

definition HeadlessAdapterSchema :: "json \<Rightarrow> HeadlessAdapterConfig option" where
  "HeadlessAdapterSchema = z_union HeadlessAdapterSchemaV1 HeadlessAdapterSchemaV2"

text \<open>\<open>parseHeadlessConfig\<close>: \<open>None\<close> is the thrown \<open>ZodError\<close>.\<close>

definition parseHeadlessConfig :: "json \<Rightarrow> HeadlessAdapterConfig option" where
  "parseHeadlessConfig config = HeadlessAdapterSchema config"

text \<open>The keys declared by either version of the adapter schema.\<close>

definition declared_fields :: "string list" where
  "declared_fields =
     [''version'', ''name'', ''command'', ''sessionMode'', ''timeout'', ''prompt'', ''output'',
      ''autoApprove'', ''resume'', ''cwdFlag'', ''outputEvents'', ''result'',
      ''historyTemplate'']"

definition required_fields :: "string list" where
  "required_fields =
     [''version'', ''name'', ''command'', ''sessionMode'', ''prompt'', ''output'',
      ''outputEvents'', ''result'']"

section \<open>The capture orchestrator (core.ts, headless \<open>runCapture\<close>)\<close>

text \<open>
  Modelled from the spec: the declarations of \<open>PromptCase\<close>, \<open>CaptureResult\<close>
  (schemas.ts), \<open>ProcessExitInfo\<close> and \<open>PromptResult\<close> (headless-session-manager.ts)
  are not among the sources. The records below have the fields \<open>runCapture\<close> reads and
  writes; the spec names the same ones (a prompt case with an input of one or several
  turns; a turn result with its updates, its output text and the exit metadata: exit
  code, signal, whether a timeout killed the process).
\<close>

datatype prompt_input = single_input string | turn_inputs "string list"

record PromptCase =
  case_id :: string
  case_input :: prompt_input
  case_hint :: "string option"
  case_metadata :: "(string \<times> json) list"

record ProcessExitInfo =
  exitCode :: "int option"
  signal :: "string option"
  timedOut :: bool

record PromptResult =
  turn_updates :: "ParsedUpdate list"
  turn_output :: string
  turn_exitInfo :: "ProcessExitInfo option"

text \<open>
  The metadata object spreads the prompt case's own metadata first (\<open>meta_custom\<close>); the
  keys written after it are fields of their own. The three exit keys are present exactly
  when the last turn reported exit metadata.
\<close>

record CaptureMetadata =
  meta_custom :: "(string \<times> json) list"
  meta_agent :: string
  meta_trajectoryRichness :: TrajectoryRichness
  meta_turnCount :: nat
  meta_exit :: "ProcessExitInfo option"

record CaptureTiming =
  timing_start :: int
  timing_end :: int
  timing_firstResponse :: "int option"
  timing_sessionCreation :: int
  timing_total :: int

record CaptureResult =
  cr_id :: string
  cr_input :: prompt_input
  cr_output :: string
  cr_hint :: "string option"
  cr_trajectory :: "TrajectoryStep list"
  cr_metadata :: CaptureMetadata
  cr_timing :: CaptureTiming
  cr_toolErrors :: bool
  cr_errors :: "string list option"
  cr_score :: "json option"

text \<open>
  The session manager and the grader are collaborators outside the sources. They are
  parameters: operations on a world \<open>'w\<close> that either return a value or throw, \<open>Inl\<close>
  carrying the message of the thrown error.
\<close>

record 'w SessionManager =
  sessions_create :: "string \<Rightarrow> 'w \<Rightarrow> (string + string) \<times> 'w"
  sessions_prompt :: "string \<Rightarrow> string \<Rightarrow> 'w \<Rightarrow> (string + PromptResult) \<times> 'w"
  sessions_destroy :: "string \<Rightarrow> 'w \<Rightarrow> (string + unit) \<times> 'w"

type_synonym 'w Grader =
  "prompt_input \<Rightarrow> string \<Rightarrow> string option \<Rightarrow> TrajectoryStep list \<Rightarrow> 'w \<Rightarrow> (string + json) \<times> 'w"

text \<open>
  What a run changes: the collaborators' world, the number of clock reads, the files
  written (by path), the lines printed to stdout, and the two loop variables.
\<close>

record 'w capture_state =
  world :: 'w
  clock_reads :: nat
  files :: "string \<rightharpoonup> string"
  stdout :: "string list"
  results :: "CaptureResult list"
  isFirstOutput :: bool

definition Date_now :: "(nat \<Rightarrow> int) \<Rightarrow> 'w capture_state \<Rightarrow> int \<times> 'w capture_state" where
  "Date_now now s = (now (clock_reads s), s\<lparr>clock_reads := Suc (clock_reads s)\<rparr>)"

definition await :: "('w \<Rightarrow> 'a \<times> 'w) \<Rightarrow> 'w capture_state \<Rightarrow> 'a \<times> 'w capture_state" where
  "await action s = (case action (world s) of (r, w) \<Rightarrow> (r, s\<lparr>world := w\<rparr>))"

text \<open>\<open>if (outputPath)\<close>: an absent or empty path is falsy.\<close>

fun truthy_path :: "string option \<Rightarrow> bool" where
  "truthy_path None = False"
| "truthy_path (Some p) = (p \<noteq> [])"

definition writeOutput ::
  "string \<Rightarrow> string option \<Rightarrow> bool \<Rightarrow> 'w capture_state \<Rightarrow> 'w capture_state" where
  "writeOutput line outputPath appendMode s =
     (if truthy_path outputPath
      then (if appendMode
            then s\<lparr>files := (files s)(the outputPath \<mapsto>
                     nullish (files s (the outputPath)) [] @ line @ [CHR 0x0A])\<rparr>
            else s\<lparr>files := (files s)(the outputPath \<mapsto> line @ [CHR 0x0A])\<rparr>)
      else s\<lparr>stdout := stdout s @ [line]\<rparr>)"


fun inputs_of :: "prompt_input \<Rightarrow> string list" where
  "inputs_of (single_input i) = [i]"
| "inputs_of (turn_inputs turns) = turns"

fun step_timestamp :: "TrajectoryStep \<Rightarrow> int" where
  "step_timestamp (Thought c t) = t"
| "step_timestamp (Message c t) = t"
| "step_timestamp (ToolCallStep tc) = tc_timestamp tc"
| "step_timestamp (Plan es t) = t"

text \<open>The three variables the loop over the turns assigns.\<close>

record turns_state =
  allUpdates :: "ParsedUpdate list"
  lastExitInfo :: "ProcessExitInfo option"
  lastOutput :: string

fun run_turns ::
  "'w SessionManager \<Rightarrow> string \<Rightarrow> string list \<Rightarrow> turns_state \<Rightarrow> 'w capture_state \<Rightarrow>
   (string + turns_state) \<times> 'w capture_state" where
  "run_turns sessions session [] acc s = (Inr acc, s)"
| "run_turns sessions session (turnInput # rest) acc s =
     (case await (sessions_prompt sessions session turnInput) s of
        (Inl message, s') \<Rightarrow> (Inl message, s')
      | (Inr turnResult, s') \<Rightarrow>
          run_turns sessions session rest
            \<lparr>allUpdates = allUpdates acc @ turn_updates turnResult,
             lastExitInfo = turn_exitInfo turnResult,
             lastOutput = turn_output turnResult\<rparr> s')"

text \<open>
  The result record of a case that ran to its end (the object literal after the last
  turn): \<open>output\<close> is \<open>lastOutput || extractOutput(trajectory)\<close>, \<open>toolErrors\<close> is
  \<open>hasToolErrors(trajectory) || (lastExitInfo?.timedOut ?? false)\<close>.
\<close>

definition build_result ::
  "string \<Rightarrow> PromptCase \<Rightarrow> int \<Rightarrow> int \<Rightarrow> int \<Rightarrow> TrajectoryStep list \<Rightarrow> turns_state \<Rightarrow>
   CaptureResult" where
  "build_result agent promptCase startTime endTime sessionCreation traj acc =
     (let output = (if lastOutput acc \<noteq> [] then lastOutput acc else extractOutput traj);
          toolErrors = (hasToolErrors traj \<or>
                        (case lastExitInfo acc of None \<Rightarrow> False | Some e \<Rightarrow> timedOut e));
          trajectoryRichness = detectTrajectoryRichness traj
      in \<lparr>cr_id = case_id promptCase,
          cr_input = case_input promptCase,
          cr_output = output,
          cr_hint = (case case_hint promptCase of
                       None \<Rightarrow> None | Some h \<Rightarrow> if h \<noteq> [] then Some h else None),
          cr_trajectory = traj,
          cr_metadata =
            \<lparr>meta_custom = case_metadata promptCase, meta_agent = agent,
             meta_trajectoryRichness = trajectoryRichness,
             meta_turnCount = length (inputs_of (case_input promptCase)),
             meta_exit = lastExitInfo acc\<rparr>,
          cr_timing =
            \<lparr>timing_start = startTime, timing_end = endTime,
             timing_firstResponse =
               (case traj of [] \<Rightarrow> None | step # rest \<Rightarrow> Some (step_timestamp step)),
             timing_sessionCreation = sessionCreation,
             timing_total = endTime - startTime\<rparr>,
          cr_toolErrors = toolErrors,
          cr_errors = None,
          cr_score = None\<rparr>)"

text \<open>The result record built in the \<open>catch\<close> block.\<close>

definition error_result :: "string \<Rightarrow> PromptCase \<Rightarrow> int \<Rightarrow> int \<Rightarrow> string \<Rightarrow> CaptureResult" where
  "error_result agent promptCase startTime endTime message =
     \<lparr>cr_id = case_id promptCase,
      cr_input = case_input promptCase,
      cr_output = [],
      cr_hint = None,
      cr_trajectory = [],
      cr_metadata =
        \<lparr>meta_custom = case_metadata promptCase, meta_agent = agent,
         meta_trajectoryRichness = minimal,
         meta_turnCount = length (inputs_of (case_input promptCase)),
         meta_exit = None\<rparr>,
      cr_timing =
        \<lparr>timing_start = startTime, timing_end = endTime, timing_firstResponse = None,
         timing_sessionCreation = 0, timing_total = endTime - startTime\<rparr>,
      cr_toolErrors = True,
      cr_errors = Some [message],
      cr_score = None\<rparr>"

text \<open>
  The \<open>try\<close> block of one loop iteration: \<open>Inl\<close> is the message of the error thrown
  by creating the session, by a turn, by the grader or by destroying the session.
  \<open>extractTrajectory\<close> reads the clock from the current read on.
\<close>

definition apply_grader ::
  "'w Grader option \<Rightarrow> PromptCase \<Rightarrow> CaptureResult \<Rightarrow> 'w capture_state \<Rightarrow>
   (string + CaptureResult) \<times> 'w capture_state" where
  "apply_grader grader promptCase result s =
     (case grader of
        None \<Rightarrow> (Inr result, s)
      | Some g \<Rightarrow>
          (case await (g (case_input promptCase) (cr_output result) (case_hint promptCase)
                         (cr_trajectory result)) s of
             (Inl message, s') \<Rightarrow> (Inl message, s')
           | (Inr score, s') \<Rightarrow> (Inr (result\<lparr>cr_score := Some score\<rparr>), s')))"

definition then_try ::
  "('s \<Rightarrow> (string + 'a) \<times> 's) \<Rightarrow> ('a \<Rightarrow> 's \<Rightarrow> (string + 'b) \<times> 's) \<Rightarrow>
   's \<Rightarrow> (string + 'b) \<times> 's" where
  "then_try action rest s =
     (case action s of
        (Inl message, s') \<Rightarrow> (Inl message, s')
      | (Inr v, s') \<Rightarrow> rest v s')"

definition no_throw :: "('s \<Rightarrow> 'a \<times> 's) \<Rightarrow> 's \<Rightarrow> (string + 'a) \<times> 's" where
  "no_throw action s = (case action s of (v, s') \<Rightarrow> (Inr v, s'))"

definition run_extractTrajectory ::
  "(nat \<Rightarrow> int) \<Rightarrow> int \<Rightarrow> ParsedUpdate list \<Rightarrow> 'w capture_state \<Rightarrow>
   TrajectoryStep list \<times> 'w capture_state" where
  "run_extractTrajectory now startTime updates s =
     (let clock = (\<lambda>n. now (clock_reads s + n))
      in (extractTrajectory clock startTime updates,
          s\<lparr>clock_reads := clock_reads s + tick (extractRun clock startTime updates)\<rparr>))"

definition try_case ::
  "(nat \<Rightarrow> int) \<Rightarrow> 'w SessionManager \<Rightarrow> 'w Grader option \<Rightarrow> string \<Rightarrow> string \<Rightarrow>
   PromptCase \<Rightarrow> int \<Rightarrow> 'w capture_state \<Rightarrow> (string + CaptureResult) \<times> 'w capture_state" where
  "try_case now sessions grader agent workingDir promptCase startTime =
     then_try (no_throw (Date_now now)) (\<lambda>sessionStart.
     then_try (await (sessions_create sessions workingDir)) (\<lambda>session.
     then_try (no_throw (Date_now now)) (\<lambda>created.
     then_try (run_turns sessions session (inputs_of (case_input promptCase))
                 \<lparr>allUpdates = [], lastExitInfo = None, lastOutput = []\<rparr>) (\<lambda>acc.
     then_try (no_throw (Date_now now)) (\<lambda>endTime.
     then_try (no_throw (run_extractTrajectory now startTime (allUpdates acc))) (\<lambda>traj.
     then_try (apply_grader grader promptCase
                 (build_result agent promptCase startTime endTime (created - sessionStart)
                    traj acc)) (\<lambda>graded.
     then_try (await (sessions_destroy sessions session)) (\<lambda>destroyed.
     Pair (Inr graded)))))))))"

text \<open>
  \<open>try\<close> and \<open>catch\<close> of one loop iteration: the result of the \<open>try\<close> block, or
  the record the \<open>catch\<close> block builds from the message of the thrown error.
\<close>

definition try_catch_case ::
  "(nat \<Rightarrow> int) \<Rightarrow> 'w SessionManager \<Rightarrow> 'w Grader option \<Rightarrow> string \<Rightarrow> string \<Rightarrow>
   PromptCase \<Rightarrow> int \<Rightarrow> 'w capture_state \<Rightarrow> CaptureResult \<times> 'w capture_state" where
  "try_catch_case now sessions grader agent workingDir promptCase startTime s =
     (case try_case now sessions grader agent workingDir promptCase startTime s of
        (Inr result, s') \<Rightarrow> (result, s')
      | (Inl message, s') \<Rightarrow>
          (case Date_now now s' of
             (endTime, s'') \<Rightarrow>
               (error_result agent promptCase startTime endTime message, s'')))"

text \<open>
  One iteration of the loop over the prompt cases: read the start time, \<open>try\<close> and
  \<open>catch\<close>, then push the result and write its line. \<open>stringify\<close> stands for
  \<open>JSON.stringify\<close>. (The guard \<open>if (!promptCase) continue\<close> never fires: the
  elements of \<open>prompts\<close> are objects.)
\<close>

definition run_case ::
  "(nat \<Rightarrow> int) \<Rightarrow> 'w SessionManager \<Rightarrow> 'w Grader option \<Rightarrow> string \<Rightarrow> string \<Rightarrow>
   string option \<Rightarrow> (CaptureResult \<Rightarrow> string) \<Rightarrow> 'w capture_state \<Rightarrow> PromptCase \<Rightarrow>
   'w capture_state" where
  "run_case now sessions grader agent workingDir resolvedOutputPath stringify s promptCase =
     (case Date_now now s of
        (startTime, s1) \<Rightarrow>
          (case try_catch_case now sessions grader agent workingDir promptCase startTime s1 of
             (result, s2) \<Rightarrow>
               (writeOutput (stringify result) resolvedOutputPath (\<not> isFirstOutput s2)
                  (s2\<lparr>results := results s2 @ [result]\<rparr>))
                 \<lparr>isFirstOutput := False\<rparr>))"

definition run_cases ::
  "(nat \<Rightarrow> int) \<Rightarrow> 'w SessionManager \<Rightarrow> 'w Grader option \<Rightarrow> string \<Rightarrow> string \<Rightarrow>
   string option \<Rightarrow> (CaptureResult \<Rightarrow> string) \<Rightarrow> 'w capture_state \<Rightarrow> PromptCase list \<Rightarrow>
   'w capture_state" where
  "run_cases now sessions grader agent workingDir resolvedOutputPath stringify s prompts =
     foldl (run_case now sessions grader agent workingDir resolvedOutputPath stringify)
       s prompts"





section \<open>The words of the specification, for comparison\<close>

text \<open>The contents of the message steps, in order, and their newline-joined concatenation.\<close>

fun message_contents :: "TrajectoryStep list \<Rightarrow> string list" where
  "message_contents [] = []"
| "message_contents (Message c t # rest) = c # message_contents rest"
| "message_contents (step # rest) = message_contents rest"

fun newline_joined :: "string list \<Rightarrow> string" where
  "newline_joined [] = []"
| "newline_joined [c] = c"
| "newline_joined (c # cs) = c @ [CHR 0x0A] @ newline_joined cs"





text \<open>
  The turn results the session manager returns for the inputs of a case, one after the
  other from a given world, up to the first turn that throws; and the values the three
  loop variables have after these turns.
\<close>

fun prompt_turns ::
  "'w SessionManager \<Rightarrow> string \<Rightarrow> string list \<Rightarrow> 'w \<Rightarrow> PromptResult list" where
  "prompt_turns sessions session [] w = []"
| "prompt_turns sessions session (turnInput # rest) w =
     (case sessions_prompt sessions session turnInput w of
        (Inl message, w') \<Rightarrow> []
      | (Inr turnResult, w') \<Rightarrow> turnResult # prompt_turns sessions session rest w')"

definition after_turns :: "turns_state \<Rightarrow> PromptResult list \<Rightarrow> turns_state" where
  "after_turns acc rs =
     \<lparr>allUpdates = allUpdates acc @ concat (map turn_updates rs),
      lastExitInfo = (if rs = [] then lastExitInfo acc else turn_exitInfo (last rs)),
      lastOutput = (if rs = [] then lastOutput acc else turn_output (last rs))\<rparr>"

text \<open>A session manager whose single turn reports a failed tool call, for examples.\<close>

definition example_sessions :: "unit SessionManager" where
  "example_sessions =
     \<lparr>sessions_create = (\<lambda>cwd w. (Inr ''session-1'', w)),
      sessions_prompt = (\<lambda>session turnInput w.
        (Inr \<lparr>turn_updates =
                 [\<lparr>pu_type = Ktool_call, pu_content = None, pu_title = Some ''Bash'',
                   pu_status = Some ''failed''\<rparr>,
                  \<lparr>pu_type = Kmessage, pu_content = Some ''done'', pu_title = None,
                   pu_status = None\<rparr>],
               turn_output = [],
               turn_exitInfo = Some \<lparr>exitCode = Some 0, signal = None, timedOut = False\<rparr>\<rparr>,
         w)),
      sessions_destroy = (\<lambda>session w. (Inr (), w))\<rparr>"

text \<open>A session manager that cannot create a session.\<close>

definition broken_sessions :: "unit SessionManager" where
  "broken_sessions = example_sessions\<lparr>sessions_create := (\<lambda>cwd w. (Inl ''spawn failed'', w))\<rparr>"

definition example_case :: PromptCase where
  "example_case =
     \<lparr>case_id = ''case-1'', case_input = single_input ''hello'', case_hint = None,
      case_metadata = []\<rparr>"

definition example_state :: "unit capture_state" where
  "example_state =
     \<lparr>world = (), clock_reads = 0, files = Map.empty, stdout = [], results = [],
      isFirstOutput = True\<rparr>"




text \<open>
  A session manager whose world counts the turns: the first turn is killed by the
  timeout, every later turn ends normally with the output text "final". A prompt case
  of two turns, and a starting state.
\<close>

definition timeout_then_ok_sessions :: "nat SessionManager" where
  "timeout_then_ok_sessions =
     \<lparr>sessions_create = (\<lambda>cwd w. (Inr ''session-1'', w)),
      sessions_prompt = (\<lambda>session turnInput w.
        (Inr \<lparr>turn_updates =
                 [\<lparr>pu_type = Kmessage, pu_content = Some ''partial'', pu_title = None,
                   pu_status = None\<rparr>],
               turn_output = (if w = 0 then [] else ''final''),
               turn_exitInfo =
                 Some \<lparr>exitCode = (if w = 0 then None else Some 0), signal = None,
                       timedOut = (w = 0)\<rparr>\<rparr>,
         Suc w)),
      sessions_destroy = (\<lambda>session w. (Inr (), w))\<rparr>"

definition two_turn_case :: PromptCase where
  "two_turn_case =
     \<lparr>case_id = ''case-2'', case_input = turn_inputs [''first'', ''second''],
      case_hint = None, case_metadata = []\<rparr>"

definition counting_state :: "nat capture_state" where
  "counting_state =
     \<lparr>world = 0, clock_reads = 0, files = Map.empty, stdout = [], results = [],
      isFirstOutput = True\<rparr>"

section \<open>Richness classification\<close>

lemma richness_scan_full:
  "richness_scan b traj = full \<longleftrightarrow> (\<exists>step \<in> set traj. decides_full step)"
  by (induction traj arbitrary: b) (auto simp: decides_full_def)

lemma richness_scan_messages_only:
  "richness_scan b traj = messages_only \<longleftrightarrow>
     (\<forall>step \<in> set traj. \<not> decides_full step) \<and>
     (b \<or> (\<exists>step \<in> set traj. step_type step = Kmessage))"
  by (induction traj arbitrary: b) (auto simp: decides_full_def)

lemma richness_scan_minimal:
  "richness_scan b traj = minimal \<longleftrightarrow>
     (\<forall>step \<in> set traj. \<not> decides_full step) \<and>
     \<not> b \<and> (\<forall>step \<in> set traj. step_type step \<noteq> Kmessage)"
  by (induction traj arbitrary: b) (auto simp: decides_full_def)

text \<open>
  C3. \<open>detectTrajectoryRichness\<close> returns \<open>full\<close> exactly when some step, at any position,
  is a thought, a tool call or a plan; otherwise \<open>messages-only\<close> exactly when some step is
  a message; otherwise \<open>minimal\<close>. The empty trajectory is \<open>minimal\<close>, and a trajectory
  with a plan step anywhere is \<open>full\<close>.
\<close>

theorem detectTrajectoryRichness_classification:
  "(detectTrajectoryRichness traj = full \<longleftrightarrow> (\<exists>step \<in> set traj. decides_full step)) \<and>
   (detectTrajectoryRichness traj = messages_only \<longleftrightarrow>
      \<not> (\<exists>step \<in> set traj. decides_full step) \<and>
      (\<exists>step \<in> set traj. step_type step = Kmessage)) \<and>
   (detectTrajectoryRichness traj = minimal \<longleftrightarrow>
      \<not> (\<exists>step \<in> set traj. decides_full step) \<and>
      \<not> (\<exists>step \<in> set traj. step_type step = Kmessage)) \<and>
   detectTrajectoryRichness [] = minimal \<and>
   detectTrajectoryRichness (before @ Plan entries t # after) = full"
  unfolding detectTrajectoryRichness_def
  by (simp add: richness_scan_full richness_scan_messages_only richness_scan_minimal
      decides_full_def)

theorem detectTrajectoryRichness_classification_witness:
  "detectTrajectoryRichness [Message ''a'' 0, Plan [] 1, Message ''b'' 2] = full \<and>
   detectTrajectoryRichness [Message ''a'' 0, Message ''b'' 2] = messages_only \<and>
   detectTrajectoryRichness [] = minimal"
  using detectTrajectoryRichness_classification
          [of "[Message ''a'' 0, Plan [] 1, Message ''b'' 2]" "[]" "[]" 0 "[]"]
        detectTrajectoryRichness_classification
          [of "[Message ''a'' 0, Message ''b'' 2]" "[]" "[]" 0 "[]"]
  by (simp add: decides_full_def)

section \<open>The tool-call correlator of the headless extractor\<close>


lemma toolCallMap_after_clock_reads [simp]:
  "toolCallMap (after_clock_reads s u) = toolCallMap s"
  and trajectory_after_clock_reads [simp]:
  "trajectory (after_clock_reads s u) = trajectory s"
  by (simp_all add: after_clock_reads_def)

lemma tick_after_clock_reads: "tick s < tick (after_clock_reads s u)"
  by (simp add: after_clock_reads_def)

lemma push_simps [simp]:
  "trajectory (push step s) = trajectory s @ [step]"
  "toolCallMap (push step s) = toolCallMap s"
  "tick (push step s) = tick s"
  by (simp_all add: push_def)

text \<open>The four ways one update changes the state.\<close>

lemma processUpdate_cases:
  obtains
    (other) step where "pu_type u \<noteq> Ktool_call" "step_type step \<noteq> Ktool_call"
      "processUpdate now st s u = push step (after_clock_reads s u)"
  | (opened) "pu_type u = Ktool_call" "toolCallMap s (toolCallId_of now s u) = None"
      "processUpdate now st s u =
         (push (ToolCallStep
                  \<lparr>tc_name = nullish (pu_title u) ''unknown'',
                   tc_status = nullish (pu_status u) ''pending'',
                   tc_input = None, tc_output = None,
                   tc_timestamp = now (tick s) - st, tc_duration = None\<rparr>)
               (after_clock_reads s u))
           \<lparr>toolCallMap := (toolCallMap s)(toolCallId_of now s u \<mapsto>
                               (now (tick s) - st, length (trajectory s)))\<rparr>"
  | (dropped) start i where "pu_type u = Ktool_call"
      "toolCallMap s (toolCallId_of now s u) = Some (start, i)"
      "pu_status u \<noteq> Some ''completed''"
      "processUpdate now st s u = after_clock_reads s u"
  | (merged) start i where "pu_type u = Ktool_call"
      "toolCallMap s (toolCallId_of now s u) = Some (start, i)"
      "pu_status u = Some ''completed''"
      "processUpdate now st s u =
         (after_clock_reads s u)\<lparr>trajectory :=
            (trajectory s)[i := set_status_duration ''completed''
                                   (now (tick s) - st - start) (trajectory s ! i)]\<rparr>"
proof (cases "pu_type u")
  case Kthought
  then show ?thesis
    by (intro other[of "Thought (nullish (pu_content u) []) (now (tick s) - st)"])
       (simp_all add: processUpdate_def Let_def)
next
  case Kmessage
  then show ?thesis
    by (intro other[of "Message (nullish (pu_content u) []) (now (tick s) - st)"])
       (simp_all add: processUpdate_def Let_def)
next
  case Kplan
  then show ?thesis
    by (intro other[of "Plan [] (now (tick s) - st)"])
       (simp_all add: processUpdate_def Let_def)
next
  case Ktool_call
  show ?thesis
  proof (cases "toolCallMap s (toolCallId_of now s u)")
    case None
    with Ktool_call show ?thesis
      by (intro opened) (simp_all add: processUpdate_def Let_def)
  next
    case (Some e)
    obtain start i where e: "e = (start, i)" by (cases e)
    show ?thesis
    proof (cases "pu_status u = Some ''completed''")
      case True
      with Ktool_call Some e show ?thesis
        by (intro merged[of start i]) (simp_all add: processUpdate_def Let_def)
    next
      case False
      with Ktool_call Some e show ?thesis
        by (intro dropped[of start i]) (simp_all add: processUpdate_def Let_def)
    qed
  qed
qed


lemma step_type_set_status_duration [simp]:
  "step_type (set_status_duration st d step) = step_type step"
  by (cases step) simp_all

lemma correlated_init: "correlated init_state"
  by (simp add: correlated_def init_state_def)

lemma correlated_push_other:
  assumes "correlated s" "step_type step \<noteq> Ktool_call"
    "trajectory s' = trajectory s @ [step]" "toolCallMap s' = toolCallMap s"
  shows "correlated s'"
  using assms unfolding correlated_def
  by (auto simp: nth_append less_Suc_eq)

lemma correlated_open:
  assumes "correlated s" "step_type step = Ktool_call" "toolCallMap s k = None"
    "trajectory s' = trajectory s @ [step]"
    "toolCallMap s' = (toolCallMap s)(k \<mapsto> (start, length (trajectory s)))"
  shows "correlated s'"
proof -
  have a: "i < length (trajectory s') \<and> step_type (trajectory s' ! i) = Ktool_call"
    if "toolCallMap s' id = Some (st, i)" for id st i
    using that assms by (auto simp: correlated_def nth_append split: if_splits)
  have b: "id = id'"
    if "toolCallMap s' id = Some (st, i)" "toolCallMap s' id' = Some (st', i)" for id id' st st' i
    using that assms by (fastforce simp: correlated_def split: if_splits)
  have c: "\<exists>id st. toolCallMap s' id = Some (st, i)"
    if "i < length (trajectory s')" "step_type (trajectory s' ! i) = Ktool_call" for i
  proof (cases "i = length (trajectory s)")
    case True
    then show ?thesis using assms(5) by auto
  next
    case False
    with that assms(4) have "i < length (trajectory s)"
      "step_type (trajectory s ! i) = Ktool_call"
      by (auto simp: nth_append)
    with assms(1) obtain id st where "toolCallMap s id = Some (st, i)"
      unfolding correlated_def by blast
    moreover from this assms(3) have "id \<noteq> k" by auto
    ultimately show ?thesis using assms(5) by auto
  qed
  show ?thesis unfolding correlated_def using a b c by blast
qed

lemma correlated_merge:
  assumes "correlated s" "toolCallMap s' = toolCallMap s"
    "trajectory s' = (trajectory s)[i := step']" "step_type step' = step_type (trajectory s ! i)"
  shows "correlated s'"
proof -
  have len: "length (trajectory s') = length (trajectory s)"
    using assms(3) by simp
  have ty: "step_type (trajectory s' ! j) = step_type (trajectory s ! j)"
    if "j < length (trajectory s)" for j
    using that assms(3,4) by (cases "j = i") simp_all
  show ?thesis
    using assms(1) unfolding correlated_def len assms(2)
    by (metis ty)
qed

lemma correlated_same:
  assumes "correlated s" "toolCallMap s' = toolCallMap s" "trajectory s' = trajectory s"
  shows "correlated s'"
  using assms unfolding correlated_def by simp

lemma correlated_processUpdate:
  assumes "correlated s"
  shows "correlated (processUpdate now st s u)"
proof (cases rule: processUpdate_cases[of u now st s])
  case (other step)
  with assms show ?thesis by (auto intro: correlated_push_other)
next
  case opened
  show ?thesis
    by (rule correlated_open[OF assms _ opened(2)]) (simp_all add: opened(3))
next
  case (dropped start i)
  with assms show ?thesis by (auto intro: correlated_same)
next
  case (merged start i)
  show ?thesis
    by (rule correlated_merge[OF assms, where i = i and
          step' = "set_status_duration ''completed'' (now (tick s) - st - start) (trajectory s ! i)"])
       (simp_all add: merged(4))
qed

lemma foldl_invariant:
  assumes "P s" "\<And>s u. P s \<Longrightarrow> P (f s u)"
  shows "P (foldl f s us)"
  using assms(1) by (induction us arbitrary: s) (simp_all add: assms(2))

lemma correlated_extractRun: "correlated (extractRun now st updates)"
  unfolding extractRun_def
  by (rule foldl_invariant) (simp_all add: correlated_init correlated_processUpdate)


text \<open>Entries of the map are never changed or removed.\<close>

lemma toolCallMap_processUpdate:
  assumes "toolCallMap s k = Some e"
  shows "toolCallMap (processUpdate now st s u) k = Some e"
proof (cases rule: processUpdate_cases[of u now st s])
  case (other step)
  with assms show ?thesis by simp
next
  case opened
  with assms have "k \<noteq> toolCallId_of now s u" by auto
  with assms opened(3) show ?thesis by simp
next
  case (dropped start i)
  with assms show ?thesis by simp
next
  case (merged start i)
  with assms show ?thesis by simp
qed

lemma toolCallMap_foldl:
  assumes "toolCallMap s k = Some e"
  shows "toolCallMap (foldl (processUpdate now st) s us) k = Some e"
  using assms by (induction us arbitrary: s) (simp_all add: toolCallMap_processUpdate)


lemma tick_processUpdate: "tick s < tick (processUpdate now st s u)"
  by (cases rule: processUpdate_cases[of u now st s])
     (simp_all add: tick_after_clock_reads)

lemma started_in_past_init: "started_in_past now st init_state"
  by (simp add: started_in_past_def init_state_def)

lemma started_in_past_processUpdate:
  assumes "started_in_past now st s"
  shows "started_in_past now st (processUpdate now st s u)"
proof -
  have lt: "tick s < tick (processUpdate now st s u)" by (rule tick_processUpdate)
  have "\<exists>t < tick (processUpdate now st s u). start = now t - st"
    if "toolCallMap (processUpdate now st s u) id = Some (start, i)" for id start i
  proof (cases "toolCallMap s id")
    case (Some e)
    with that toolCallMap_processUpdate[OF Some, of now st u] have "toolCallMap s id = Some (start, i)"
      by simp
    with assms obtain t where "t < tick s" "start = now t - st"
      unfolding started_in_past_def by blast
    with lt have "t < tick (processUpdate now st s u)" by simp
    with \<open>start = now t - st\<close> show ?thesis by blast
  next
    case None
    with that have "start = now (tick s) - st"
      by (cases rule: processUpdate_cases[of u now st s]) (auto split: if_splits)
    with lt show ?thesis by blast
  qed
  then show ?thesis unfolding started_in_past_def by blast
qed


lemma step_named_set_status_duration [simp]:
  "step_named x (set_status_duration st d step) = step_named x step"
  by (cases step) simp_all


lemma named_ok_init: "named_ok init_state"
  by (simp add: named_ok_def init_state_def)

lemma named_ok_processUpdate:
  assumes "named_ok s"
  shows "named_ok (processUpdate now st s u)"
proof -
  let ?s' = "processUpdate now st s u"
  have "\<exists>start. toolCallMap ?s' x = Some (start, i)"
    if i: "i < length (trajectory ?s')" and x: "x \<noteq> ''unknown''"
      and n: "step_named x (trajectory ?s' ! i)" for i x
  proof (cases "i < length (trajectory s) \<and> step_named x (trajectory s ! i)")
    case True
    with assms x obtain start where "toolCallMap s x = Some (start, i)"
      unfolding named_ok_def by blast
    then show ?thesis by (simp add: toolCallMap_processUpdate)
  next
    case False
    show ?thesis
    proof (cases rule: processUpdate_cases[of u now st s])
      case (other step)
      with False i n show ?thesis
        by (cases step) (auto simp: nth_append less_Suc_eq split: if_splits)
    next
      case opened
      with False i n have "i = length (trajectory s)"
        by (auto simp: nth_append less_Suc_eq split: if_splits)
      with opened(3) n x have "pu_title u = Some x"
        by (cases "pu_title u") simp_all
      then have "toolCallId_of now s u = x" by (simp add: toolCallId_of_def)
      with opened(3) \<open>i = length (trajectory s)\<close> show ?thesis by simp
    next
      case (dropped start j)
      with False i n show ?thesis by simp
    next
      case (merged start j)
      with False i n show ?thesis by (cases "i = j") simp_all
    qed
  qed
  then show ?thesis unfolding named_ok_def by blast
qed

lemma run_ok_init: "run_ok now st init_state"
  by (simp add: run_ok_def correlated_init started_in_past_init named_ok_init)

lemma run_ok_processUpdate: "run_ok now st s \<Longrightarrow> run_ok now st (processUpdate now st s u)"
  by (simp add: run_ok_def correlated_processUpdate started_in_past_processUpdate
      named_ok_processUpdate)

lemma run_ok_foldl: "run_ok now st s \<Longrightarrow> run_ok now st (foldl (processUpdate now st) s us)"
  by (rule foldl_invariant) (simp_all add: run_ok_processUpdate)

lemma run_ok_extractRun: "run_ok now st (extractRun now st updates)"
  unfolding extractRun_def by (rule run_ok_foldl) (rule run_ok_init)






lemma extractRun_snoc:
  "extractRun now st (us @ [u]) = processUpdate now st (extractRun now st us) u"
  by (simp add: extractRun_def)

lemma extractRun_append:
  "extractRun now st (us @ vs) = foldl (processUpdate now st) (extractRun now st us) vs"
  by (simp add: extractRun_def)


section \<open>At most one step per identity\<close>

lemma step_type_merge_tool_call [simp]:
  "step_type (merge_tool_call toolCall d step) = step_type step"
  by (cases step) (simp_all add: Let_def)

lemma processNotification_cases:
  obtains
    (other) step where "\<And>toolCall. update n \<noteq> tool_call toolCall"
      "step_type step \<noteq> Ktool_call"
      "processNotification now st s n = push step (s\<lparr>tick := Suc (tick s)\<rparr>)"
  | (ignored) "\<And>toolCall. update n \<noteq> tool_call toolCall"
      "processNotification now st s n = s\<lparr>tick := Suc (tick s)\<rparr>"
  | (opened) toolCall where "update n = tool_call toolCall"
      "toolCallMap s (call_toolCallId toolCall) = None"
      "processNotification now st s n =
         (push (ToolCallStep
                  \<lparr>tc_name = call_title toolCall,
                   tc_status = nullish (call_status toolCall) ''pending'',
                   tc_input = call_rawInput toolCall, tc_output = None,
                   tc_timestamp = now (tick s) - st, tc_duration = None\<rparr>)
               (s\<lparr>tick := Suc (tick s)\<rparr>))
           \<lparr>toolCallMap := (toolCallMap s)(call_toolCallId toolCall \<mapsto>
                               (now (tick s) - st, length (trajectory s)))\<rparr>"
  | (merged) toolCall start i where "update n = tool_call toolCall"
      "toolCallMap s (call_toolCallId toolCall) = Some (start, i)"
      "processNotification now st s n =
         s\<lparr>tick := Suc (tick s),
           trajectory := (trajectory s)[i := merge_tool_call toolCall
                                   (now (tick s) - st - start) (trajectory s ! i)]\<rparr>"
proof (cases "update n")
  case (agent_thought_chunk c)
  then show ?thesis
  proof (cases c)
    case (TextContent str)
    with agent_thought_chunk show ?thesis
      by (intro other[of "Thought str (now (tick s) - st)"])
         (simp_all add: processNotification_def Let_def)
  next
    case (OtherContent v)
    with agent_thought_chunk show ?thesis
      by (intro ignored) (simp_all add: processNotification_def Let_def)
  qed
next
  case (agent_message_chunk c)
  then show ?thesis
  proof (cases c)
    case (TextContent str)
    with agent_message_chunk show ?thesis
      by (intro other[of "Message str (now (tick s) - st)"])
         (simp_all add: processNotification_def Let_def)
  next
    case (OtherContent v)
    with agent_message_chunk show ?thesis
      by (intro ignored) (simp_all add: processNotification_def Let_def)
  qed
next
  case (tool_call toolCall)
  show ?thesis
  proof (cases "toolCallMap s (call_toolCallId toolCall)")
    case None
    with tool_call show ?thesis
      by (intro opened[of toolCall]) (simp_all add: processNotification_def Let_def)
  next
    case (Some e)
    obtain start i where "e = (start, i)" by (cases e)
    with tool_call Some show ?thesis
      by (intro merged[of toolCall start i]) (simp_all add: processNotification_def Let_def)
  qed
next
  case (plan entries)
  then show ?thesis
    by (intro other[of "Plan entries (now (tick s) - st)"])
       (simp_all add: processNotification_def Let_def)
next
  case other_session_update
  then show ?thesis
    by (intro ignored) (simp_all add: processNotification_def Let_def)
qed

lemma correlated_processNotification:
  assumes "correlated s"
  shows "correlated (processNotification now st s n)"
proof (cases rule: processNotification_cases[where now = now and st = st and s = s and n = n])
  case (other step)
  with assms show ?thesis by (auto intro: correlated_push_other)
next
  case ignored
  with assms show ?thesis by (auto intro: correlated_same)
next
  case (opened toolCall)
  show ?thesis
    by (rule correlated_open[OF assms _ opened(2)]) (simp_all add: opened(3))
next
  case (merged toolCall start i)
  show ?thesis
    by (rule correlated_merge[OF assms, where i = i and
          step' = "merge_tool_call toolCall (now (tick s) - st - start) (trajectory s ! i)"])
       (simp_all add: merged(3))
qed

lemma correlated_extractRun_acp: "correlated (extractRun_acp now st notifications)"
  unfolding extractRun_acp_def
  by (rule foldl_invariant) (simp_all add: correlated_init correlated_processNotification)

lemma correlated_bij_betw:
  assumes "correlated s"
  shows "bij_betw (entry_index s) (dom (toolCallMap s)) (tool_call_indices (trajectory s))"
  unfolding bij_betw_def
proof
  show "inj_on (entry_index s) (dom (toolCallMap s))"
  proof (rule inj_onI)
    fix k k' assume "k \<in> dom (toolCallMap s)" "k' \<in> dom (toolCallMap s)"
      "entry_index s k = entry_index s k'"
    then obtain start start' i where "toolCallMap s k = Some (start, i)"
      "toolCallMap s k' = Some (start', i)"
      by (auto simp: entry_index_def)
    with assms show "k = k'" unfolding correlated_def by blast
  qed
next
  show "entry_index s ` dom (toolCallMap s) = tool_call_indices (trajectory s)"
  proof (intro set_eqI iffI)
    fix i assume "i \<in> entry_index s ` dom (toolCallMap s)"
    then obtain k start where "toolCallMap s k = Some (start, i)"
      by (auto simp: entry_index_def)
    with assms show "i \<in> tool_call_indices (trajectory s)"
      unfolding correlated_def tool_call_indices_def by blast
  next
    fix i assume "i \<in> tool_call_indices (trajectory s)"
    with assms obtain k start where k: "toolCallMap s k = Some (start, i)"
      unfolding correlated_def tool_call_indices_def by blast
    then have "entry_index s k = i" "k \<in> dom (toolCallMap s)"
      by (simp_all add: entry_index_def dom_def)
    then show "i \<in> entry_index s ` dom (toolCallMap s)" by blast
  qed
qed

lemma extractRun_acp_snoc:
  "extractRun_acp now st (ns @ [n]) = processNotification now st (extractRun_acp now st ns) n"
  by (simp add: extractRun_acp_def)

lemma length_known_processUpdate:
  assumes "pu_type u = Ktool_call" "toolCallMap s (toolCallId_of now s u) \<noteq> None"
  shows "length (trajectory (processUpdate now st s u)) = length (trajectory s)"
  using assms by (cases rule: processUpdate_cases[of u now st s]) simp_all

lemma length_known_processNotification:
  assumes "update n = tool_call toolCall" "toolCallMap s (call_toolCallId toolCall) \<noteq> None"
  shows "length (trajectory (processNotification now st s n)) = length (trajectory s)"
  using assms by (cases rule: processNotification_cases[where now = now and st = st and s = s and n = n]) (auto simp: push_def)

text \<open>
  Unlike the headless extractor, the ACP extractor merges every repeated tool call into
  the registered step, whatever its status: the step's status is overwritten and its
  duration set.
\<close>

lemma extractTrajectory_acp_merges_every_status:
  "extractTrajectory_acp (\<lambda>n. int n) 0
     [\<lparr>sessionId = ''s'', update = tool_call
         \<lparr>call_toolCallId = ''c1'', call_title = ''Read'', call_status = Some ''pending'',
          call_content = None, call_rawInput = None, call_rawOutput = None\<rparr>\<rparr>,
      \<lparr>sessionId = ''s'', update = tool_call
         \<lparr>call_toolCallId = ''c1'', call_title = ''Read'', call_status = Some ''in_progress'',
          call_content = None, call_rawInput = None, call_rawOutput = None\<rparr>\<rparr>] =
     [ToolCallStep \<lparr>tc_name = ''Read'', tc_status = ''in_progress'', tc_input = None,
        tc_output = None, tc_timestamp = 0, tc_duration = Some 1\<rparr>]"
  by (simp add: extractTrajectory_acp_def extractRun_acp_def init_state_def
      processNotification_def push_def Let_def)

text \<open>The keys of the map are exactly the identities derived so far.\<close>

lemma dom_processUpdate:
  "dom (toolCallMap (processUpdate now st s u)) =
     dom (toolCallMap s) \<union> (if pu_type u = Ktool_call then {toolCallId_of now s u} else {})"
  by (cases rule: processUpdate_cases[of u now st s]) auto

lemma dom_foldl_processUpdate:
  "dom (toolCallMap (foldl (processUpdate now st) s us)) =
     dom (toolCallMap s) \<union> set (derived_identities now st s us)"
  by (induction us arbitrary: s) (auto simp: dom_processUpdate split: if_splits)

lemma dom_processNotification:
  "dom (toolCallMap (processNotification now st s n)) =
     dom (toolCallMap s) \<union> set (acp_identities [n])"
proof (cases rule: processNotification_cases[where now = now and st = st and s = s and n = n])
  case (other step)
  then have "acp_identities [n] = []" by (cases "update n") auto
  with other show ?thesis by simp
next
  case ignored
  then have "acp_identities [n] = []" by (cases "update n") auto
  with ignored show ?thesis by simp
next
  case (opened toolCall)
  then show ?thesis by simp
next
  case (merged toolCall start i)
  then show ?thesis by auto
qed

lemma acp_identities_Cons: "acp_identities (n # ns) = acp_identities [n] @ acp_identities ns"
  by simp

lemma dom_foldl_processNotification:
  "dom (toolCallMap (foldl (processNotification now st) s ns)) =
     dom (toolCallMap s) \<union> set (acp_identities ns)"
proof (induction ns arbitrary: s)
  case Nil
  then show ?case by simp
next
  case (Cons n ns)
  have "set (acp_identities (n # ns)) = set (acp_identities [n]) \<union> set (acp_identities ns)"
    by (subst acp_identities_Cons) simp
  with Cons show ?case by (simp add: dom_processNotification Un_assoc del: acp_identities.simps)
qed

lemma filter_at_most_one:
  assumes "\<And>j k. j < length xs \<Longrightarrow> k < length xs \<Longrightarrow> P (xs ! j) \<Longrightarrow> P (xs ! k) \<Longrightarrow> j = k"
  shows "length (filter P xs) \<le> 1"
proof -
  let ?S = "{i. i < length xs \<and> P (xs ! i)}"
  have fin: "finite ?S" by simp
  have "a = b" if "a \<in> ?S" "b \<in> ?S" for a b
  proof -
    from that have "a < length xs" "b < length xs" "P (xs ! a)" "P (xs ! b)" by simp_all
    then show ?thesis by (rule assms)
  qed
  then have "\<forall>a \<in> ?S. \<forall>b \<in> ?S. a = b" by blast
  then have c: "card ?S \<le> Suc 0" by (simp only: card_le_Suc0_iff_eq[OF fin])
  show ?thesis unfolding length_filter_conv_card One_nat_def by (rule c)
qed

lemma named_at_most_once:
  assumes "named_ok s" "x \<noteq> ''unknown''"
  shows "length (filter (step_named x) (trajectory s)) \<le> 1"
proof (rule filter_at_most_one)
  fix j k assume j: "j < length (trajectory s)" "step_named x (trajectory s ! j)"
    and k: "k < length (trajectory s)" "step_named x (trajectory s ! k)"
  have reg: "\<exists>start. toolCallMap s x = Some (start, i)"
    if "i < length (trajectory s)" "step_named x (trajectory s ! i)" for i
    using assms(1)[unfolded named_ok_def, rule_format, of i x] that assms(2) by simp
  from reg[OF j] obtain a where "toolCallMap s x = Some (a, j)" ..
  moreover from reg[OF k] obtain b where "toolCallMap s x = Some (b, k)" ..
  ultimately show "j = k" by simp
qed

text \<open>
  C2. In the final state of either extractor the registered identities are exactly the
  identities derived for the tool-call updates of the list (title or synthesized id;
  protocol call id), and the map is a bijection between them and the tool-call steps of
  the trajectory: there are as many tool-call steps as distinct derived identities. In
  the headless trajectory no title other than "unknown" names more than one step. A
  tool-call update whose identity is already registered appends no step.
\<close>

theorem one_tool_call_step_per_identity:
  "(let s = extractRun now st updates;
        ids = derived_identities now st init_state updates
    in dom (toolCallMap s) = set ids \<and>
       bij_betw (entry_index s) (set ids) (tool_call_indices (trajectory s)) \<and>
       length (filter (\<lambda>step. step_type step = Ktool_call) (extractTrajectory now st updates)) =
         length (remdups ids) \<and>
       (x \<noteq> ''unknown'' \<longrightarrow>
          length (filter (step_named x) (extractTrajectory now st updates)) \<le> 1)) \<and>
   (let s = extractRun_acp now st notifications;
        ids = acp_identities notifications
    in dom (toolCallMap s) = set ids \<and>
       bij_betw (entry_index s) (set ids) (tool_call_indices (trajectory s)) \<and>
       length (filter (\<lambda>step. step_type step = Ktool_call)
                 (extractTrajectory_acp now st notifications)) =
         length (remdups ids)) \<and>
   (pu_type u = Ktool_call \<and>
    toolCallId_of now (extractRun now st updates) u \<in>
      set (derived_identities now st init_state updates) \<longrightarrow>
    length (extractTrajectory now st (updates @ [u])) =
      length (extractTrajectory now st updates)) \<and>
   (update n = tool_call toolCall \<and>
    call_toolCallId toolCall \<in> set (acp_identities notifications) \<longrightarrow>
    length (extractTrajectory_acp now st (notifications @ [n])) =
      length (extractTrajectory_acp now st notifications))"
proof -
  have count: "length (filter (\<lambda>step. step_type step = Ktool_call) (trajectory s)) =
      card (dom (toolCallMap s))" if "correlated s" for s
  proof -
    have "length (filter (\<lambda>step. step_type step = Ktool_call) (trajectory s)) =
        card (tool_call_indices (trajectory s))"
      by (simp add: length_filter_conv_card tool_call_indices_def)
    also have "\<dots> = card (dom (toolCallMap s))"
      using correlated_bij_betw[OF that] by (simp add: bij_betw_same_card)
    finally show ?thesis .
  qed
  have dh: "dom (toolCallMap (extractRun now st updates)) =
      set (derived_identities now st init_state updates)"
    unfolding extractRun_def by (simp add: dom_foldl_processUpdate init_state_def)
  have da: "dom (toolCallMap (extractRun_acp now st notifications)) =
      set (acp_identities notifications)"
    unfolding extractRun_acp_def by (simp add: dom_foldl_processNotification init_state_def)
  have ch: "length (filter (\<lambda>step. step_type step = Ktool_call)
      (trajectory (extractRun now st updates))) =
      length (remdups (derived_identities now st init_state updates))"
    using count[OF correlated_extractRun, of now st updates]
    by (simp add: dh length_remdups_card_conv)
  have ca: "length (filter (\<lambda>step. step_type step = Ktool_call)
      (trajectory (extractRun_acp now st notifications))) =
      length (remdups (acp_identities notifications))"
    using count[OF correlated_extractRun_acp, of now st notifications]
    by (simp add: da length_remdups_card_conv)
  have bh: "bij_betw (entry_index (extractRun now st updates))
      (set (derived_identities now st init_state updates))
      (tool_call_indices (trajectory (extractRun now st updates)))"
    using correlated_bij_betw[OF correlated_extractRun, of now st updates] by (simp add: dh)
  have ba: "bij_betw (entry_index (extractRun_acp now st notifications))
      (set (acp_identities notifications))
      (tool_call_indices (trajectory (extractRun_acp now st notifications)))"
    using correlated_bij_betw[OF correlated_extractRun_acp, of now st notifications]
    by (simp add: da)
  have nm: "length (filter (step_named x) (trajectory (extractRun now st updates))) \<le> 1"
    if "x \<noteq> ''unknown''"
    using run_ok_extractRun[of now st updates] named_at_most_once[OF _ that]
    by (simp add: run_ok_def)
  have kh: "length (trajectory (processUpdate now st (extractRun now st updates) u)) =
      length (trajectory (extractRun now st updates))"
    if "pu_type u = Ktool_call"
      "toolCallId_of now (extractRun now st updates) u \<in>
         set (derived_identities now st init_state updates)"
    using that length_known_processUpdate[of u "extractRun now st updates" now st]
    unfolding dh[symmetric] by (auto simp: dom_def)
  have ka: "length (trajectory (processNotification now st (extractRun_acp now st notifications) n)) =
      length (trajectory (extractRun_acp now st notifications))"
    if "update n = tool_call toolCall"
      "call_toolCallId toolCall \<in> set (acp_identities notifications)"
    using that
      length_known_processNotification[of n toolCall "extractRun_acp now st notifications" now st]
    unfolding da[symmetric] by (auto simp: dom_def)
  show ?thesis
    unfolding Let_def extractTrajectory_def extractTrajectory_acp_def
      extractRun_snoc extractRun_acp_snoc
    using dh da ch ca bh ba nm kh ka by blast
qed

theorem one_tool_call_step_per_identity_witness:
  "toolCallId_of (\<lambda>n. int n)
     (extractRun (\<lambda>n. int n) 0
        [\<lparr>pu_type = Ktool_call, pu_content = None, pu_title = Some ''Read'', pu_status = None\<rparr>])
     \<lparr>pu_type = Ktool_call, pu_content = None, pu_title = Some ''Read'',
       pu_status = Some ''failed''\<rparr>
     \<in> set (derived_identities (\<lambda>n. int n) 0 init_state
        [\<lparr>pu_type = Ktool_call, pu_content = None, pu_title = Some ''Read'', pu_status = None\<rparr>]) \<and>
   length (extractTrajectory (\<lambda>n. int n) 0
     ([\<lparr>pu_type = Ktool_call, pu_content = None, pu_title = Some ''Read'', pu_status = None\<rparr>] @
      [\<lparr>pu_type = Ktool_call, pu_content = None, pu_title = Some ''Read'',
         pu_status = Some ''failed''\<rparr>])) = 1 \<and>
   ''c1'' \<in> set (acp_identities
        [\<lparr>sessionId = ''s'', update = tool_call
             \<lparr>call_toolCallId = ''c1'', call_title = ''Read'', call_status = None,
              call_content = None, call_rawInput = None, call_rawOutput = None\<rparr>\<rparr>]) \<and>
   length (extractTrajectory_acp (\<lambda>n. int n) 0
     ([\<lparr>sessionId = ''s'', update = tool_call
             \<lparr>call_toolCallId = ''c1'', call_title = ''Read'', call_status = None,
              call_content = None, call_rawInput = None, call_rawOutput = None\<rparr>\<rparr>] @
      [\<lparr>sessionId = ''s'', update = tool_call
             \<lparr>call_toolCallId = ''c1'', call_title = ''Read'', call_status = Some ''failed'',
              call_content = None, call_rawInput = None, call_rawOutput = None\<rparr>\<rparr>])) = 1 \<and>
   length (filter (step_named ''Read'') (extractTrajectory (\<lambda>n. int n) 0
     [\<lparr>pu_type = Ktool_call, pu_content = None, pu_title = Some ''Read'', pu_status = None\<rparr>]))
     \<le> 1"
  using one_tool_call_step_per_identity
    [where now = "\<lambda>n. int n" and st = 0 and x = "''Read''"
       and updates = "[\<lparr>pu_type = Ktool_call, pu_content = None, pu_title = Some ''Read'',
                         pu_status = None\<rparr>]"
       and u = "\<lparr>pu_type = Ktool_call, pu_content = None, pu_title = Some ''Read'',
                  pu_status = Some ''failed''\<rparr>"
       and notifications = "[\<lparr>sessionId = ''s'', update = tool_call
             \<lparr>call_toolCallId = ''c1'', call_title = ''Read'', call_status = None,
              call_content = None, call_rawInput = None, call_rawOutput = None\<rparr>\<rparr>]"
       and n = "\<lparr>sessionId = ''s'', update = tool_call
             \<lparr>call_toolCallId = ''c1'', call_title = ''Read'', call_status = Some ''failed'',
              call_content = None, call_rawInput = None, call_rawOutput = None\<rparr>\<rparr>"
       and toolCall = "\<lparr>call_toolCallId = ''c1'', call_title = ''Read'',
              call_status = Some ''failed'',
              call_content = None, call_rawInput = None, call_rawOutput = None\<rparr>"]
  by (simp add: extractTrajectory_def extractRun_def extractTrajectory_acp_def extractRun_acp_def
      init_state_def processUpdate_def processNotification_def
      toolCallId_of_def after_clock_reads_def push_def Let_def)

section \<open>The tool-call merge law\<close>
















section \<open>Synthesized identities and completions without a start\<close>


lemma digit_char_inj: "a < 10 \<Longrightarrow> b < 10 \<Longrightarrow> digit_char a = digit_char b \<Longrightarrow> a = b"
proof -
  assume a: "a < 10" and b: "b < 10" and e: "digit_char a = digit_char b"
  from e have "of_char (char_of (48 + a)) = (of_char (char_of (48 + b)) :: nat)"
    by (simp add: digit_char_def)
  with a b show "a = b" by simp
qed

lemma digit_char_not_minus: "d < 10 \<Longrightarrow> digit_char d \<noteq> CHR ''-''"
proof
  assume d: "d < 10" and e: "digit_char d = CHR ''-''"
  from e have "of_char (char_of (48 + d)) = (of_char CHR ''-'' :: nat)"
    by (simp add: digit_char_def)
  with d show False by simp
qed

lemma string_of_nat_nonempty: "string_of_nat n \<noteq> []"
  by (subst string_of_nat.simps) simp

lemma string_of_nat_snoc:
  "10 \<le> n \<Longrightarrow> string_of_nat n = string_of_nat (n div 10) @ [digit_char (n mod 10)]"
  by (subst string_of_nat.simps) simp

lemma string_of_nat_small: "n < 10 \<Longrightarrow> string_of_nat n = [digit_char n]"
  by (subst string_of_nat.simps) simp

lemma string_of_nat_inj: "string_of_nat m = string_of_nat n \<Longrightarrow> m = n"
proof (induction m arbitrary: n rule: string_of_nat.induct)
  case (1 m)
  show ?case
  proof (cases "m < 10")
    case m: True
    show ?thesis
    proof (cases "n < 10")
      case True
      with m "1.prems" show ?thesis
        by (simp add: string_of_nat_small digit_char_inj)
    next
      case False
      with m "1.prems" string_of_nat_nonempty[of "n div 10"] show ?thesis
        by (simp add: string_of_nat_small string_of_nat_snoc)
    qed
  next
    case m: False
    show ?thesis
    proof (cases "n < 10")
      case True
      with m "1.prems" string_of_nat_nonempty[of "m div 10"] show ?thesis
        by (simp add: string_of_nat_small string_of_nat_snoc)
    next
      case False
      with m "1.prems" have e: "string_of_nat (m div 10) = string_of_nat (n div 10)"
        and d: "digit_char (m mod 10) = digit_char (n mod 10)"
        by (simp_all add: string_of_nat_snoc)
      from "1.IH"[OF m e] have "m div 10 = n div 10" .
      moreover from d have "m mod 10 = n mod 10" by (simp add: digit_char_inj)
      ultimately show ?thesis by (metis div_mult_mod_eq)
    qed
  qed
qed

lemma string_of_nat_no_minus: "CHR ''-'' \<notin> set (string_of_nat n)"
proof (induction n rule: string_of_nat.induct)
  case (1 n)
  show ?case
  proof (cases "n < 10")
    case True
    then show ?thesis using digit_char_not_minus[of n] by (auto simp: string_of_nat_small)
  next
    case False
    with "1.IH" digit_char_not_minus[of "n mod 10"] show ?thesis
      by (auto simp: string_of_nat_snoc)
  qed
qed

lemma string_of_int_inj: "string_of_int a = string_of_int b \<Longrightarrow> a = b"
proof -
  assume e: "string_of_int a = string_of_int b"
  have neg: False if "i < 0" "\<not> j < 0" "string_of_int i = string_of_int j" for i j
  proof -
    from that have "CHR ''-'' \<in> set (string_of_nat (nat j))"
      by (simp add: string_of_int_def) (metis list.set_intros(1))
    then show False by (simp add: string_of_nat_no_minus)
  qed
  show "a = b"
  proof (cases "a < 0"; cases "b < 0")
    assume "a < 0" "b < 0"
    with e have "nat (- a) = nat (- b)" by (simp add: string_of_int_def string_of_nat_inj)
    with \<open>a < 0\<close> \<open>b < 0\<close> show ?thesis by simp
  next
    assume "a < 0" "\<not> b < 0" with neg[of a b] e show ?thesis by simp
  next
    assume "\<not> a < 0" "b < 0" with neg[of b a] e show ?thesis by simp
  next
    assume "\<not> a < 0" "\<not> b < 0"
    with e have "nat a = nat b" by (simp add: string_of_int_def string_of_nat_inj)
    with \<open>\<not> a < 0\<close> \<open>\<not> b < 0\<close> show ?thesis by simp
  qed
qed


lemma registered_after_processUpdate:
  assumes "pu_type u = Ktool_call"
  shows "toolCallMap (processUpdate now st s u) (toolCallId_of now s u) \<noteq> None"
  using assms by (cases rule: processUpdate_cases[of u now st s]) simp_all

text \<open>
  C10. A tool-call update with status "completed" whose identity has no entry in the map
  is appended as a new tool-call step with status "completed" and no duration, in the
  headless extractor and in the ACP extractor.
\<close>

theorem completion_without_start_is_appended:
  "(pu_type u = Ktool_call \<and> pu_status u = Some ''completed'' \<and>
    toolCallMap (extractRun now st updates) (toolCallId_of now (extractRun now st updates) u)
      = None \<longrightarrow>
    extractTrajectory now st (updates @ [u]) =
      extractTrajectory now st updates @
        [ToolCallStep
           \<lparr>tc_name = nullish (pu_title u) ''unknown'', tc_status = ''completed'',
            tc_input = None, tc_output = None,
            tc_timestamp = now (tick (extractRun now st updates)) - st,
            tc_duration = None\<rparr>]) \<and>
   (update n = tool_call toolCall \<and> call_status toolCall = Some ''completed'' \<and>
    toolCallMap (extractRun_acp now st notifications) (call_toolCallId toolCall) = None \<longrightarrow>
    extractTrajectory_acp now st (notifications @ [n]) =
      extractTrajectory_acp now st notifications @
        [ToolCallStep
           \<lparr>tc_name = call_title toolCall, tc_status = ''completed'',
            tc_input = call_rawInput toolCall, tc_output = None,
            tc_timestamp = now (tick (extractRun_acp now st notifications)) - st,
            tc_duration = None\<rparr>])"
proof (intro conjI impI)
  let ?s = "extractRun now st updates"
  assume h: "pu_type u = Ktool_call \<and> pu_status u = Some ''completed'' \<and>
    toolCallMap ?s (toolCallId_of now ?s u) = None"
  then show "extractTrajectory now st (updates @ [u]) =
      extractTrajectory now st updates @
        [ToolCallStep
           \<lparr>tc_name = nullish (pu_title u) ''unknown'', tc_status = ''completed'',
            tc_input = None, tc_output = None,
            tc_timestamp = now (tick ?s) - st, tc_duration = None\<rparr>]"
    unfolding extractTrajectory_def extractRun_snoc
    by (cases rule: processUpdate_cases[of u now st ?s]) simp_all
next
  let ?s = "extractRun_acp now st notifications"
  assume h: "update n = tool_call toolCall \<and> call_status toolCall = Some ''completed'' \<and>
    toolCallMap ?s (call_toolCallId toolCall) = None"
  then show "extractTrajectory_acp now st (notifications @ [n]) =
      extractTrajectory_acp now st notifications @
        [ToolCallStep
           \<lparr>tc_name = call_title toolCall, tc_status = ''completed'',
            tc_input = call_rawInput toolCall, tc_output = None,
            tc_timestamp = now (tick ?s) - st, tc_duration = None\<rparr>]"
    unfolding extractTrajectory_acp_def extractRun_acp_snoc
    by (cases rule: processNotification_cases[where now = now and st = st and s = ?s and n = n])
       auto
qed

theorem completion_without_start_is_appended_witness:
  "extractTrajectory (\<lambda>n. int n) 0
     ([] @ [\<lparr>pu_type = Ktool_call, pu_content = None, pu_title = Some ''Bash'',
            pu_status = Some ''completed''\<rparr>]) =
     extractTrajectory (\<lambda>n. int n) 0 [] @
     [ToolCallStep \<lparr>tc_name = ''Bash'', tc_status = ''completed'', tc_input = None,
        tc_output = None, tc_timestamp = 0, tc_duration = None\<rparr>] \<and>
   extractTrajectory_acp (\<lambda>n. int n) 0
     ([] @ [\<lparr>sessionId = ''s'', update = tool_call
             \<lparr>call_toolCallId = ''c1'', call_title = ''Bash'',
              call_status = Some ''completed'', call_content = None,
              call_rawInput = Some (JStr ''ls''), call_rawOutput = Some (JStr ''a'')\<rparr>\<rparr>]) =
     extractTrajectory_acp (\<lambda>n. int n) 0 [] @
     [ToolCallStep \<lparr>tc_name = ''Bash'', tc_status = ''completed'',
        tc_input = Some (JStr ''ls''), tc_output = None, tc_timestamp = 0,
        tc_duration = None\<rparr>]"
  using completion_without_start_is_appended
    [where now = "\<lambda>n. int n" and st = 0 and updates = "[]" and notifications = "[]"
       and u = "\<lparr>pu_type = Ktool_call, pu_content = None, pu_title = Some ''Bash'',
                 pu_status = Some ''completed''\<rparr>"
       and n = "\<lparr>sessionId = ''s'', update = tool_call
             \<lparr>call_toolCallId = ''c1'', call_title = ''Bash'',
              call_status = Some ''completed'', call_content = None,
              call_rawInput = Some (JStr ''ls''), call_rawOutput = Some (JStr ''a'')\<rparr>\<rparr>"
       and toolCall = "\<lparr>call_toolCallId = ''c1'', call_title = ''Bash'',
              call_status = Some ''completed'', call_content = None,
              call_rawInput = Some (JStr ''ls''), call_rawOutput = Some (JStr ''a'')\<rparr>"]
  by (simp add: extractRun_def extractRun_acp_def init_state_def toolCallId_of_def)

text \<open>
  C9. The code does not do what the claim says. The synthesized identity is the text
  "tool_" followed by the clock reading and nothing else, so untitled tool calls
  processed within one millisecond collide: with a clock that returns the same
  millisecond for every read, two untitled tool-call updates get the same identity and
  only one step is pushed, and the "completed" update of a second untitled call is
  merged into the step of the first.
\<close>

theorem synthesized_id_collision:
  "toolCallId_of (stopped_clock 1700000000000) init_state
     \<lparr>pu_type = Ktool_call, pu_content = None, pu_title = None, pu_status = None\<rparr> =
   toolCallId_of (stopped_clock 1700000000000)
     (processUpdate (stopped_clock 1700000000000) 0 init_state
        \<lparr>pu_type = Ktool_call, pu_content = None, pu_title = None, pu_status = None\<rparr>)
     \<lparr>pu_type = Ktool_call, pu_content = None, pu_title = None, pu_status = None\<rparr> \<and>
   length (extractTrajectory (stopped_clock 1700000000000) 0
     [\<lparr>pu_type = Ktool_call, pu_content = None, pu_title = None, pu_status = None\<rparr>,
      \<lparr>pu_type = Ktool_call, pu_content = None, pu_title = None, pu_status = None\<rparr>]) = 1 \<and>
   extractTrajectory (stopped_clock 1700000000000) 1700000000000
     [\<lparr>pu_type = Ktool_call, pu_content = None, pu_title = None, pu_status = Some ''pending''\<rparr>,
      \<lparr>pu_type = Ktool_call, pu_content = None, pu_title = None,
        pu_status = Some ''completed''\<rparr>] =
     [ToolCallStep \<lparr>tc_name = ''unknown'', tc_status = ''completed'', tc_input = None,
        tc_output = None, tc_timestamp = 0, tc_duration = Some 0\<rparr>]"
  by (simp add: extractTrajectory_def extractRun_def init_state_def processUpdate_def
      toolCallId_of_def after_clock_reads_def push_def stopped_clock_def Let_def)

text \<open>
  What the code computes in general: the identity of an untitled tool-call update is
  "tool_" followed by the decimal text of the clock reading taken for it, so two such
  identities are equal exactly when the two readings are equal.
\<close>

lemma synthesized_id_is_clock_reading:
  assumes "pu_type u1 = Ktool_call" "pu_title u1 = None"
    and "pu_type u2 = Ktool_call" "pu_title u2 = None"
  shows "let s1 = extractRun now st A;
             s2 = extractRun now st (A @ u1 # B);
             id1 = toolCallId_of now s1 u1;
             id2 = toolCallId_of now s2 u2
         in id1 = ''tool_'' @ string_of_int (now (Suc (tick s1))) \<and>
            id2 = ''tool_'' @ string_of_int (now (Suc (tick s2))) \<and>
            (id1 = id2 \<longleftrightarrow> now (Suc (tick s1)) = now (Suc (tick s2))) \<and>
            (now (Suc (tick s1)) = now (Suc (tick s2)) \<longrightarrow>
               extractTrajectory now st (A @ u1 # B @ [u2]) =
                 extractTrajectory now st (A @ u1 # B) \<or>
               (pu_status u2 = Some ''completed'' \<and>
                length (extractTrajectory now st (A @ u1 # B @ [u2])) =
                  length (extractTrajectory now st (A @ u1 # B)))) \<and>
            (toolCallMap s2 id2 = None \<longrightarrow>
               extractTrajectory now st (A @ u1 # B @ [u2]) =
                 extractTrajectory now st (A @ u1 # B) @
                   [ToolCallStep
                      \<lparr>tc_name = ''unknown'', tc_status = nullish (pu_status u2) ''pending'',
                       tc_input = None, tc_output = None,
                       tc_timestamp = now (tick s2) - st, tc_duration = None\<rparr>])"
proof -
  let ?f = "processUpdate now st"
  define s1 where "s1 = extractRun now st A"
  define s2 where "s2 = extractRun now st (A @ u1 # B)"
  define id1 where "id1 = toolCallId_of now s1 u1"
  define id2 where "id2 = toolCallId_of now s2 u2"
  have s2: "s2 = foldl ?f (?f s1 u1) B"
    by (simp add: s2_def s1_def extractRun_def)
  have r: "extractRun now st (A @ u1 # B @ [u2]) = ?f s2 u2"
    by (simp add: s2_def extractRun_def)
  have i1: "id1 = ''tool_'' @ string_of_int (now (Suc (tick s1)))"
    using assms by (simp add: id1_def toolCallId_of_def)
  have i2: "id2 = ''tool_'' @ string_of_int (now (Suc (tick s2)))"
    using assms by (simp add: id2_def toolCallId_of_def)
  have eq: "id1 = id2 \<longleftrightarrow> now (Suc (tick s1)) = now (Suc (tick s2))"
    unfolding i1 i2 using string_of_int_inj by auto
  have same: "trajectory (?f s2 u2) = trajectory s2 \<or>
      (pu_status u2 = Some ''completed'' \<and>
       length (trajectory (?f s2 u2)) = length (trajectory s2))"
    if "now (Suc (tick s1)) = now (Suc (tick s2))"
  proof -
    from that eq have "id1 = id2" by simp
    have "toolCallMap (?f s1 u1) id1 \<noteq> None"
      unfolding id1_def using assms(1) by (rule registered_after_processUpdate)
    then obtain e where "toolCallMap (?f s1 u1) id1 = Some e" by blast
    then have "toolCallMap s2 id1 = Some e" unfolding s2 by (rule toolCallMap_foldl)
    with \<open>id1 = id2\<close> have known: "toolCallMap s2 (toolCallId_of now s2 u2) \<noteq> None"
      by (simp add: id2_def)
    show ?thesis
      using known assms(3)
      by (cases rule: processUpdate_cases[of u2 now st s2]) simp_all
  qed
  have fresh: "trajectory (?f s2 u2) = trajectory s2 @
      [ToolCallStep
         \<lparr>tc_name = ''unknown'', tc_status = nullish (pu_status u2) ''pending'',
          tc_input = None, tc_output = None,
          tc_timestamp = now (tick s2) - st, tc_duration = None\<rparr>]"
    if "toolCallMap s2 id2 = None"
    using that assms(3,4) unfolding id2_def
    by (cases rule: processUpdate_cases[of u2 now st s2]) simp_all
  show ?thesis
    unfolding Let_def extractTrajectory_def r
    unfolding s1_def[symmetric] s2_def[symmetric] id1_def[symmetric] id2_def[symmetric]
    using i1 i2 eq same fresh by blast
qed

section \<open>Validation of the adapter configuration\<close>

lemma PromptConfigSchema_flag_and_stdin:
  assumes "map_of p ''flag'' = Some (JStr f)" "f \<noteq> []" "map_of p ''stdin'' = Some (JBool True)"
  shows "PromptConfigSchema (JObj p) = None"
  using assms
  by (cases "optional (z_enum [(''text'', format_text), (''json'', format_json)])
               (map_of p ''stdinFormat'')")
     (simp_all add: PromptConfigSchema_def refine_def flag_and_stdin_def)

lemma V1_needs_prompt:
  "required PromptConfigSchema (map_of ps ''prompt'') = None \<Longrightarrow>
   HeadlessAdapterSchemaV1 (JObj ps) = None"
  by (simp add: HeadlessAdapterSchemaV1_def split: Option.bind_split)

lemma V2_needs_prompt:
  "required PromptConfigSchema (map_of ps ''prompt'') = None \<Longrightarrow>
   HeadlessAdapterSchemaV2 (JObj ps) = None"
  by (simp add: HeadlessAdapterSchemaV2_def split: Option.bind_split)

text \<open>
  C7. A configuration document whose \<open>prompt\<close> section has a non-empty \<open>flag\<close> and
  \<open>stdin: true\<close> is rejected by \<open>parseHeadlessConfig\<close>, whatever else it contains.
\<close>

theorem parseHeadlessConfig_rejects_flag_and_stdin:
  assumes "map_of doc ''prompt'' = Some (JObj p)"
    and "map_of p ''flag'' = Some (JStr f)" "f \<noteq> []"
    and "map_of p ''stdin'' = Some (JBool True)"
  shows "parseHeadlessConfig (JObj doc) = None"
proof -
  have "PromptConfigSchema (JObj p) = None"
    using assms(2-4) by (rule PromptConfigSchema_flag_and_stdin)
  with assms(1) have "required PromptConfigSchema (map_of doc ''prompt'') = None" by simp
  then show ?thesis
    by (simp add: parseHeadlessConfig_def HeadlessAdapterSchema_def z_union_def
        V1_needs_prompt V2_needs_prompt)
qed

lemmas schema_defs =
  parseHeadlessConfig_def HeadlessAdapterSchema_def z_union_def HeadlessAdapterSchemaV1_def
  HeadlessAdapterSchemaV2_def PromptConfigSchema_def OutputConfigSchema_def
  ResultConfigSchema_def ResumeConfigSchema_def OutputEventMappingSchema_def
  OutputEventMatchSchema_def OutputEventExtractSchema_def historyTemplateObjectSchema_def
  refine_def flag_and_stdin_def

theorem parseHeadlessConfig_rejects_flag_and_stdin_witness:
  "map_of
     [(''version'', JNum 2), (''name'', JStr ''agent''), (''command'', JArr [JStr ''agent'']),
      (''sessionMode'', JStr ''stream''),
      (''prompt'', JObj [(''flag'', JStr ''-p''), (''stdin'', JBool True)]),
      (''output'', JObj [(''flag'', JStr ''--format''), (''value'', JStr ''json'')]),
      (''outputEvents'', JArr []),
      (''result'', JObj [(''matchPath'', JStr ''$.type''), (''matchValue'', JStr ''result''),
                         (''contentPath'', JStr ''$.result'')])] ''prompt'' =
     Some (JObj [(''flag'', JStr ''-p''), (''stdin'', JBool True)]) \<and>
   map_of [(''flag'', JStr ''-p''), (''stdin'', JBool True)] ''flag'' = Some (JStr ''-p'') \<and>
   ''-p'' \<noteq> [] \<and>
   map_of [(''flag'', JStr ''-p''), (''stdin'', JBool True)] ''stdin'' = Some (JBool True) \<and>
   parseHeadlessConfig (JObj
     [(''version'', JNum 2), (''name'', JStr ''agent''), (''command'', JArr [JStr ''agent'']),
      (''sessionMode'', JStr ''stream''),
      (''prompt'', JObj [(''flag'', JStr ''-p''), (''stdin'', JBool True)]),
      (''output'', JObj [(''flag'', JStr ''--format''), (''value'', JStr ''json'')]),
      (''outputEvents'', JArr []),
      (''result'', JObj [(''matchPath'', JStr ''$.type''), (''matchValue'', JStr ''result''),
                         (''contentPath'', JStr ''$.result'')])]) = None"
  using parseHeadlessConfig_rejects_flag_and_stdin
    [where f = "''-p''" and p = "[(''flag'', JStr ''-p''), (''stdin'', JBool True)]"
       and doc = "[(''version'', JNum 2), (''name'', JStr ''agent''),
      (''command'', JArr [JStr ''agent'']),
      (''sessionMode'', JStr ''stream''),
      (''prompt'', JObj [(''flag'', JStr ''-p''), (''stdin'', JBool True)]),
      (''output'', JObj [(''flag'', JStr ''--format''), (''value'', JStr ''json'')]),
      (''outputEvents'', JArr []),
      (''result'', JObj [(''matchPath'', JStr ''$.type''), (''matchValue'', JStr ''result''),
                         (''contentPath'', JStr ''$.result'')])]"]
  by simp

text \<open>
  C8, as stated, fails: a valid version 2 document to which the undeclared key
  \<open>color\<close> is added still parses, and to the value the document parses to without it.
\<close>

theorem parseHeadlessConfig_unknown_field_counterexample:
  "''color'' \<notin> set declared_fields \<and>
   parseHeadlessConfig (JObj
     [(''version'', JNum 2), (''name'', JStr ''agent''), (''command'', JArr [JStr ''agent'']),
      (''sessionMode'', JStr ''stream''),
      (''prompt'', JObj [(''flag'', JStr ''-p'')]),
      (''output'', JObj [(''flag'', JStr ''--format''), (''value'', JStr ''json'')]),
      (''outputEvents'', JArr []),
      (''result'', JObj [(''matchPath'', JStr ''$.type''), (''matchValue'', JStr ''result''),
                         (''contentPath'', JStr ''$.result'')]),
      (''color'', JStr ''blue'')]) =
   Some \<lparr>version = 2, name = ''agent'', command = [''agent''], sessionMode = stream,
     timeout = None,
     prompt = \<lparr>prompt_flag = Some ''-p'', prompt_stdin = None, prompt_stdinFormat = None\<rparr>,
     output_config = \<lparr>output_flag = ''--format'', output_value = ''json''\<rparr>,
     autoApprove = None, resume = None, cwdFlag = None, outputEvents = [],
     result_config = \<lparr>result_matchPath = ''$.type'', result_matchValue = ''result'',
                       result_contentPath = ''$.result''\<rparr>,
     historyTemplate = None\<rparr>"
  by (simp add: schema_defs declared_fields_def)

text \<open>
  C8, amended. \<open>parseHeadlessConfig\<close> reads only the declared keys: two documents that
  agree on every declared key parse alike, so adding a key that is not declared changes
  nothing and an otherwise valid document with an unknown field is accepted. A document
  that lacks one of the required keys is rejected.
\<close>

theorem parseHeadlessConfig_ignores_unknown_rejects_missing:
  "((\<forall>k \<in> set declared_fields. map_of doc k = map_of doc' k) \<longrightarrow>
      parseHeadlessConfig (JObj doc) = parseHeadlessConfig (JObj doc')) \<and>
   (k \<notin> set declared_fields \<longrightarrow>
      parseHeadlessConfig (JObj (doc @ [(k, v)])) = parseHeadlessConfig (JObj doc) \<and>
      parseHeadlessConfig (JObj ((k, v) # doc)) = parseHeadlessConfig (JObj doc)) \<and>
   ((\<exists>r \<in> set required_fields. map_of doc r = None) \<longrightarrow>
      parseHeadlessConfig (JObj doc) = None)"
proof -
  have agree: "parseHeadlessConfig (JObj d) = parseHeadlessConfig (JObj d')"
    if "\<forall>k \<in> set declared_fields. map_of d k = map_of d' k" for d d'
  proof -
    have "HeadlessAdapterSchemaV1 (JObj d) = HeadlessAdapterSchemaV1 (JObj d')"
      using that by (simp add: declared_fields_def HeadlessAdapterSchemaV1_def)
    moreover have "HeadlessAdapterSchemaV2 (JObj d) = HeadlessAdapterSchemaV2 (JObj d')"
      using that by (simp add: declared_fields_def HeadlessAdapterSchemaV2_def)
    ultimately show ?thesis
      by (simp add: parseHeadlessConfig_def HeadlessAdapterSchema_def z_union_def
          cong: option.case_cong)
  qed
  have snoc: "parseHeadlessConfig (JObj (doc @ [(k, v)])) = parseHeadlessConfig (JObj doc)"
    if "k \<notin> set declared_fields"
  proof (rule agree, rule ballI)
    fix k' assume "k' \<in> set declared_fields"
    with that have "k' \<noteq> k" by auto
    then show "map_of (doc @ [(k, v)]) k' = map_of doc k'"
      by (simp add: map_add_def split: option.splits)
  qed
  have cons: "parseHeadlessConfig (JObj ((k, v) # doc)) = parseHeadlessConfig (JObj doc)"
    if "k \<notin> set declared_fields"
  proof (rule agree, rule ballI)
    fix k' assume "k' \<in> set declared_fields"
    with that have "k' \<noteq> k" by auto
    then show "map_of ((k, v) # doc) k' = map_of doc k'" by simp
  qed
  have missing: "parseHeadlessConfig (JObj doc) = None"
    if "\<exists>r \<in> set required_fields. map_of doc r = None"
  proof -
    have "HeadlessAdapterSchemaV1 (JObj doc) = None"
      using that
      by (auto simp: required_fields_def HeadlessAdapterSchemaV1_def split: Option.bind_split)
    moreover have "HeadlessAdapterSchemaV2 (JObj doc) = None"
      using that
      by (auto simp: required_fields_def HeadlessAdapterSchemaV2_def split: Option.bind_split)
    ultimately show ?thesis
      by (simp add: parseHeadlessConfig_def HeadlessAdapterSchema_def z_union_def
          cong: option.case_cong)
  qed
  from agree snoc cons missing show ?thesis by blast
qed

theorem parseHeadlessConfig_ignores_unknown_rejects_missing_witness:
  "''color'' \<notin> set declared_fields \<and>
   parseHeadlessConfig (JObj
     ([(''version'', JNum 1), (''name'', JStr ''agent''), (''command'', JArr []),
       (''sessionMode'', JStr ''iterative''), (''prompt'', JObj []),
       (''output'', JObj [(''flag'', JStr ''-o''), (''value'', JStr ''json'')]),
       (''outputEvents'', JArr []),
       (''result'', JObj [(''matchPath'', JStr ''t''), (''matchValue'', JStr ''r''),
                          (''contentPath'', JStr ''c'')])] @ [(''color'', JStr ''blue'')])) =
   parseHeadlessConfig (JObj
     [(''version'', JNum 1), (''name'', JStr ''agent''), (''command'', JArr []),
      (''sessionMode'', JStr ''iterative''), (''prompt'', JObj []),
      (''output'', JObj [(''flag'', JStr ''-o''), (''value'', JStr ''json'')]),
      (''outputEvents'', JArr []),
      (''result'', JObj [(''matchPath'', JStr ''t''), (''matchValue'', JStr ''r''),
                         (''contentPath'', JStr ''c'')])]) \<and>
   ''name'' \<in> set required_fields \<and>
   map_of [(''version'', JNum 1), (''color'', JStr ''blue'')] ''name'' = None \<and>
   parseHeadlessConfig (JObj [(''version'', JNum 1), (''color'', JStr ''blue'')]) = None"
  using parseHeadlessConfig_ignores_unknown_rejects_missing
    [where k = "''color''" and v = "JStr ''blue''"
       and doc = "[(''version'', JNum 1), (''name'', JStr ''agent''), (''command'', JArr []),
      (''sessionMode'', JStr ''iterative''), (''prompt'', JObj []),
      (''output'', JObj [(''flag'', JStr ''-o''), (''value'', JStr ''json'')]),
      (''outputEvents'', JArr []),
      (''result'', JObj [(''matchPath'', JStr ''t''), (''matchValue'', JStr ''r''),
                         (''contentPath'', JStr ''c'')])]"]
    parseHeadlessConfig_ignores_unknown_rejects_missing
    [where doc = "[(''version'', JNum 1), (''color'', JStr ''blue'')]"]
  by (simp add: declared_fields_def required_fields_def)

section \<open>Derived output and error flag of a captured case\<close>


lemma join_from_concat: "join_from sep acc xs = acc @ concat (map (\<lambda>x. sep @ x) xs)"
  by (induction xs arbitrary: acc) simp_all

lemma newline_joined_Cons:
  "newline_joined (c # cs) = c @ concat (map (\<lambda>x. [CHR 0x0A] @ x) cs)"
  by (induction cs arbitrary: c) simp_all

lemma join_newline_joined: "join [CHR 0x0A] cs = newline_joined cs"
proof (cases cs)
  case Nil
  then show ?thesis by simp
next
  case (Cons c rest)
  then show ?thesis by (simp only: join.simps join_from_concat newline_joined_Cons)
qed

lemma message_contents_filter:
  "map message_content (filter (\<lambda>step. step_type step = Kmessage) traj) = message_contents traj"
  by (induction traj rule: message_contents.induct) simp_all

lemma message_contents_none:
  "(\<forall>step \<in> set traj. step_type step \<noteq> Kmessage) \<Longrightarrow> message_contents traj = []"
  by (induction traj rule: message_contents.induct) simp_all

lemma step_failed_iff:
  "step_failed step \<longleftrightarrow> (\<exists>tc. step = ToolCallStep tc \<and> tc_status tc = ''failed'')"
  by (cases step) simp_all

lemma hasToolErrors_iff:
  "hasToolErrors traj \<longleftrightarrow> (\<exists>tc. ToolCallStep tc \<in> set traj \<and> tc_status tc = ''failed'')"
  by (induction traj) (auto simp: hasToolErrors_def step_failed_iff)














lemma then_try_Inr:
  assumes "then_try action rest s = (Inr r, s')"
  obtains v s1 where "action s = (Inr v, s1)" "rest v s1 = (Inr r, s')"
proof -
  obtain a s1 where a: "action s = (a, s1)" by (cases "action s")
  show thesis
  proof (cases a)
    case (Inl m)
    with a assms show ?thesis by (simp add: then_try_def)
  next
    case (Inr v)
    with a assms that show ?thesis by (simp add: then_try_def)
  qed
qed

lemma apply_grader_Inr:
  assumes "apply_grader grader promptCase result s = (Inr graded, s')"
  shows "\<exists>score. graded = result\<lparr>cr_score := score\<rparr>"
proof (cases grader)
  case None
  with assms have "graded = result\<lparr>cr_score := cr_score result\<rparr>"
    by (simp add: apply_grader_def)
  then show ?thesis by blast
next
  case (Some g)
  obtain a s1 where a: "await (g (case_input promptCase) (cr_output result)
      (case_hint promptCase) (cr_trajectory result)) s = (a, s1)"
    by (cases "await (g (case_input promptCase) (cr_output result)
      (case_hint promptCase) (cr_trajectory result)) s")
  with assms Some show ?thesis
    by (cases a) (auto simp: apply_grader_def)
qed


lemma build_result_fields [simp]:
  "cr_trajectory (build_result agent promptCase startTime endTime sc traj acc) = traj"
  "meta_exit (cr_metadata (build_result agent promptCase startTime endTime sc traj acc)) =
     lastExitInfo acc"
  "cr_toolErrors (build_result agent promptCase startTime endTime sc traj acc) \<longleftrightarrow>
     hasToolErrors traj \<or> (case lastExitInfo acc of None \<Rightarrow> False | Some e \<Rightarrow> timedOut e)"
  "cr_output (build_result agent promptCase startTime endTime sc traj acc) =
     (if lastOutput acc \<noteq> [] then lastOutput acc else extractOutput traj)"
  "cr_errors (build_result agent promptCase startTime endTime sc traj acc) = None"
  "cr_id (build_result agent promptCase startTime endTime sc traj acc) = case_id promptCase"
  by (simp_all add: build_result_def Let_def)

text \<open>What the steps of the \<open>try\<close> block return, in terms of the collaborators' answers.\<close>

lemma no_throw_Date_now:
  assumes "no_throw (Date_now now) s = (Inr v, s1)"
  shows "v = now (clock_reads s)" "clock_reads s1 = Suc (clock_reads s)" "world s1 = world s"
  using assms by (auto simp: no_throw_def Date_now_def)

lemma await_result:
  assumes "await action s = (r, s1)"
  shows "action (world s) = (r, world s1)" "clock_reads s1 = clock_reads s"
  using assms by (auto simp: await_def split: prod.splits)

lemma after_turns_Nil [simp]: "after_turns acc [] = acc"
  by (simp add: after_turns_def)

lemma after_turns_Cons:
  "after_turns acc (r # rs) =
     after_turns \<lparr>allUpdates = allUpdates acc @ turn_updates r,
                  lastExitInfo = turn_exitInfo r, lastOutput = turn_output r\<rparr> rs"
  by (simp add: after_turns_def)

lemma run_turns_Inr:
  assumes "run_turns sessions session inputs acc s = (Inr acc', s')"
  shows "acc' = after_turns acc (prompt_turns sessions session inputs (world s)) \<and>
         length (prompt_turns sessions session inputs (world s)) = length inputs \<and>
         clock_reads s' = clock_reads s"
  using assms
proof (induction inputs arbitrary: acc s)
  case Nil
  then show ?case by simp
next
  case (Cons turnInput rest)
  obtain a s1 where a: "await (sessions_prompt sessions session turnInput) s = (a, s1)"
    by (cases "await (sessions_prompt sessions session turnInput) s")
  note w = await_result[OF a]
  show ?case
  proof (cases a)
    case (Inl m)
    with a Cons.prems show ?thesis by simp
  next
    case (Inr turnResult)
    let ?acc1 = "\<lparr>allUpdates = allUpdates acc @ turn_updates turnResult,
             lastExitInfo = turn_exitInfo turnResult,
             lastOutput = turn_output turnResult\<rparr>"
    from Inr a Cons.prems have "run_turns sessions session rest ?acc1 s1 = (Inr acc', s')"
      by simp
    from Cons.IH[OF this]
    have ih: "acc' = after_turns ?acc1 (prompt_turns sessions session rest (world s1))"
      "length (prompt_turns sessions session rest (world s1)) = length rest"
      "clock_reads s' = clock_reads s1"
      by simp_all
    have pt: "prompt_turns sessions session (turnInput # rest) (world s) =
        turnResult # prompt_turns sessions session rest (world s1)"
      using w(1) Inr by simp
    show ?thesis
      unfolding pt after_turns_Cons using ih w(2) by simp
  qed
qed

lemma run_extractTrajectory_result:
  assumes "no_throw (run_extractTrajectory now startTime updates) s = (Inr traj, s')"
  shows "traj = extractTrajectory (\<lambda>n. now (clock_reads s + n)) startTime updates"
  using assms by (auto simp: no_throw_def run_extractTrajectory_def Let_def)

lemma try_case_Inr_turns:
  assumes "try_case now sessions grader agent workingDir promptCase startTime s = (Inr r, s')"
  obtains session w endTime sessionCreation score where
    "sessions_create sessions workingDir (world s) = (Inr session, w)"
    "length (prompt_turns sessions session (inputs_of (case_input promptCase)) w) =
       length (inputs_of (case_input promptCase))"
    "r = (build_result agent promptCase startTime endTime sessionCreation
            (extractTrajectory (\<lambda>n. now (clock_reads s + 3 + n)) startTime
               (concat (map turn_updates
                  (prompt_turns sessions session (inputs_of (case_input promptCase)) w))))
            (after_turns \<lparr>allUpdates = [], lastExitInfo = None, lastOutput = []\<rparr>
               (prompt_turns sessions session (inputs_of (case_input promptCase)) w)))
         \<lparr>cr_score := score\<rparr>"
proof -
  let ?inputs = "inputs_of (case_input promptCase)"
  let ?acc0 = "\<lparr>allUpdates = [], lastExitInfo = None, lastOutput = []\<rparr>"
  from assms[unfolded try_case_def]
  obtain sessionStart s1 where d1: "no_throw (Date_now now) s = (Inr sessionStart, s1)" and
    e1: "then_try (await (sessions_create sessions workingDir)) (\<lambda>session.
     then_try (no_throw (Date_now now)) (\<lambda>created.
     then_try (run_turns sessions session ?inputs ?acc0) (\<lambda>acc.
     then_try (no_throw (Date_now now)) (\<lambda>endTime.
     then_try (no_throw (run_extractTrajectory now startTime (allUpdates acc))) (\<lambda>traj.
     then_try (apply_grader grader promptCase
                 (build_result agent promptCase startTime endTime (created - sessionStart)
                    traj acc)) (\<lambda>graded.
     then_try (await (sessions_destroy sessions session)) (\<lambda>destroyed.
     Pair (Inr graded)))))))) s1 = (Inr r, s')"
    by (rule then_try_Inr)
  from e1 obtain session s2 where c: "await (sessions_create sessions workingDir) s1 = (Inr session, s2)" and
    e2: "then_try (no_throw (Date_now now)) (\<lambda>created.
     then_try (run_turns sessions session ?inputs ?acc0) (\<lambda>acc.
     then_try (no_throw (Date_now now)) (\<lambda>endTime.
     then_try (no_throw (run_extractTrajectory now startTime (allUpdates acc))) (\<lambda>traj.
     then_try (apply_grader grader promptCase
                 (build_result agent promptCase startTime endTime (created - sessionStart)
                    traj acc)) (\<lambda>graded.
     then_try (await (sessions_destroy sessions session)) (\<lambda>destroyed.
     Pair (Inr graded))))))) s2 = (Inr r, s')"
    by (rule then_try_Inr)
  from e2 obtain created s3 where d2: "no_throw (Date_now now) s2 = (Inr created, s3)" and
    e3: "then_try (run_turns sessions session ?inputs ?acc0) (\<lambda>acc.
     then_try (no_throw (Date_now now)) (\<lambda>endTime.
     then_try (no_throw (run_extractTrajectory now startTime (allUpdates acc))) (\<lambda>traj.
     then_try (apply_grader grader promptCase
                 (build_result agent promptCase startTime endTime (created - sessionStart)
                    traj acc)) (\<lambda>graded.
     then_try (await (sessions_destroy sessions session)) (\<lambda>destroyed.
     Pair (Inr graded)))))) s3 = (Inr r, s')"
    by (rule then_try_Inr)
  from e3 obtain acc s4 where t: "run_turns sessions session ?inputs ?acc0 s3 = (Inr acc, s4)" and
    e4: "then_try (no_throw (Date_now now)) (\<lambda>endTime.
     then_try (no_throw (run_extractTrajectory now startTime (allUpdates acc))) (\<lambda>traj.
     then_try (apply_grader grader promptCase
                 (build_result agent promptCase startTime endTime (created - sessionStart)
                    traj acc)) (\<lambda>graded.
     then_try (await (sessions_destroy sessions session)) (\<lambda>destroyed.
     Pair (Inr graded))))) s4 = (Inr r, s')"
    by (rule then_try_Inr)
  from e4 obtain endTime s5 where d3: "no_throw (Date_now now) s4 = (Inr endTime, s5)" and
    e5: "then_try (no_throw (run_extractTrajectory now startTime (allUpdates acc))) (\<lambda>traj.
     then_try (apply_grader grader promptCase
                 (build_result agent promptCase startTime endTime (created - sessionStart)
                    traj acc)) (\<lambda>graded.
     then_try (await (sessions_destroy sessions session)) (\<lambda>destroyed.
     Pair (Inr graded)))) s5 = (Inr r, s')"
    by (rule then_try_Inr)
  from e5 obtain traj s6 where
    x: "no_throw (run_extractTrajectory now startTime (allUpdates acc)) s5 = (Inr traj, s6)" and
    e6: "then_try (apply_grader grader promptCase
                 (build_result agent promptCase startTime endTime (created - sessionStart)
                    traj acc)) (\<lambda>graded.
     then_try (await (sessions_destroy sessions session)) (\<lambda>destroyed.
     Pair (Inr graded))) s6 = (Inr r, s')"
    by (rule then_try_Inr)
  from e6 obtain graded s7 where g: "apply_grader grader promptCase
        (build_result agent promptCase startTime endTime (created - sessionStart) traj acc) s6 =
        (Inr graded, s7)"
    and d: "then_try (await (sessions_destroy sessions session)) (\<lambda>destroyed.
     Pair (Inr graded)) s7 = (Inr r, s')"
    by (rule then_try_Inr)
  from d obtain destroyed :: unit and s8 where
    "Pair (Inr graded :: string + CaptureResult) s8 = (Inr r, s')"
    by (rule then_try_Inr)
  then have rg: "r = graded" by simp
  from apply_grader_Inr[OF g] obtain score where
    gr: "graded = (build_result agent promptCase startTime endTime (created - sessionStart)
                    traj acc)\<lparr>cr_score := score\<rparr>" ..
  let ?rs = "prompt_turns sessions session ?inputs (world s2)"
  have w12: "world s1 = world s" "clock_reads s1 = Suc (clock_reads s)"
    using no_throw_Date_now[OF d1] by simp_all
  have cr: "sessions_create sessions workingDir (world s) = (Inr session, world s2)"
    "clock_reads s2 = clock_reads s1"
    using await_result[OF c] w12 by simp_all
  have w3: "world s3 = world s2" "clock_reads s3 = Suc (clock_reads s2)"
    using no_throw_Date_now[OF d2] by simp_all
  from run_turns_Inr[OF t] w3
  have tr: "acc = after_turns ?acc0 ?rs" "length ?rs = length ?inputs"
    "clock_reads s4 = clock_reads s3"
    by simp_all
  have c5: "clock_reads s5 = clock_reads s + 3"
    using no_throw_Date_now(2)[OF d3] tr(3) w3(2) cr(2) w12(2) by simp
  have au: "allUpdates acc = concat (map turn_updates ?rs)"
    unfolding tr(1) by (simp add: after_turns_def)
  have tj: "traj = extractTrajectory (\<lambda>n. now (clock_reads s + 3 + n)) startTime
      (concat (map turn_updates ?rs))"
    using run_extractTrajectory_result[OF x] c5 au by simp
  show thesis
  proof (rule that[OF cr(1)])
    show "length ?rs = length ?inputs" by (rule tr(2))
    show "r = (build_result agent promptCase startTime endTime (created - sessionStart)
            (extractTrajectory (\<lambda>n. now (clock_reads s + 3 + n)) startTime
               (concat (map turn_updates ?rs)))
            (after_turns ?acc0 ?rs))\<lparr>cr_score := score\<rparr>"
      using rg gr tj tr(1) by simp
  qed
qed

text \<open>
  C4, as stated, fails for a case of several turns: the flag looks at the exit metadata
  of the last turn only. With a session manager whose first turn is killed by the
  timeout and whose second turn ends normally, the case runs to its end (no error is
  recorded), no tool call failed, and \<open>toolErrors\<close> is false although a turn timed out.
\<close>

theorem toolErrors_misses_earlier_timeout:
  "prompt_turns timeout_then_ok_sessions ''session-1'' [''first'', ''second''] 0 =
     [\<lparr>turn_updates = [\<lparr>pu_type = Kmessage, pu_content = Some ''partial'', pu_title = None,
                          pu_status = None\<rparr>],
       turn_output = [],
       turn_exitInfo = Some \<lparr>exitCode = None, signal = None, timedOut = True\<rparr>\<rparr>,
      \<lparr>turn_updates = [\<lparr>pu_type = Kmessage, pu_content = Some ''partial'', pu_title = None,
                          pu_status = None\<rparr>],
       turn_output = ''final'',
       turn_exitInfo = Some \<lparr>exitCode = Some 0, signal = None, timedOut = False\<rparr>\<rparr>] \<and>
   map cr_errors (results (run_cases forward_clock timeout_then_ok_sessions None ''agent''
     ''/work'' None cr_id counting_state [two_turn_case])) = [None] \<and>
   map cr_toolErrors (results (run_cases forward_clock timeout_then_ok_sessions None ''agent''
     ''/work'' None cr_id counting_state [two_turn_case])) = [False]"
  by (simp add: run_cases_def run_case_def try_catch_case_def writeOutput_def
      try_case_def then_try_def no_throw_def Date_now_def await_def run_extractTrajectory_def
      apply_grader_def build_result_def timeout_then_ok_sessions_def two_turn_case_def
      counting_state_def forward_clock_def extractTrajectory_def extractRun_def init_state_def
      processUpdate_def toolCallId_of_def after_clock_reads_def push_def Let_def
      hasToolErrors_def)

text \<open>
  C4, amended. For every case whose execution runs to its end, the record's trajectory
  is extracted from the updates of all turns the session manager returned, in order, its
  exit metadata is that of the last turn, and its \<open>toolErrors\<close> flag is true exactly
  when some tool-call step of that trajectory has status "failed" or the exit metadata
  of the last turn reports a timeout. A timeout of an earlier turn does not set the flag.
\<close>

theorem toolErrors_from_last_turn:
  "(cr_toolErrors (build_result agent promptCase startTime endTime sessionCreation traj acc) \<longleftrightarrow>
      (\<exists>tc. ToolCallStep tc \<in> set traj \<and> tc_status tc = ''failed'') \<or>
      (\<exists>e. lastExitInfo acc = Some e \<and> timedOut e)) \<and>
   (try_case now sessions grader agent workingDir promptCase startTime s = (Inr r, s') \<longrightarrow>
      (\<exists>session w.
         sessions_create sessions workingDir (world s) = (Inr session, w) \<and>
         (let rs = prompt_turns sessions session (inputs_of (case_input promptCase)) w
          in length rs = length (inputs_of (case_input promptCase)) \<and>
             cr_trajectory r =
               extractTrajectory (\<lambda>n. now (clock_reads s + 3 + n)) startTime
                 (concat (map turn_updates rs)) \<and>
             meta_exit (cr_metadata r) = (if rs = [] then None else turn_exitInfo (last rs)) \<and>
             (cr_toolErrors r \<longleftrightarrow>
                (\<exists>tc. ToolCallStep tc \<in> set (cr_trajectory r) \<and> tc_status tc = ''failed'') \<or>
                (rs \<noteq> [] \<and> (\<exists>e. turn_exitInfo (last rs) = Some e \<and> timedOut e))))))"
proof (intro conjI impI)
  show "cr_toolErrors (build_result agent promptCase startTime endTime sessionCreation traj acc) \<longleftrightarrow>
      (\<exists>tc. ToolCallStep tc \<in> set traj \<and> tc_status tc = ''failed'') \<or>
      (\<exists>e. lastExitInfo acc = Some e \<and> timedOut e)"
    by (cases "lastExitInfo acc") (simp_all add: hasToolErrors_iff)
next
  assume "try_case now sessions grader agent workingDir promptCase startTime s = (Inr r, s')"
  then obtain session w endTime sc score where
    c: "sessions_create sessions workingDir (world s) = (Inr session, w)" and
    l: "length (prompt_turns sessions session (inputs_of (case_input promptCase)) w) =
       length (inputs_of (case_input promptCase))" and
    r: "r = (build_result agent promptCase startTime endTime sc
            (extractTrajectory (\<lambda>n. now (clock_reads s + 3 + n)) startTime
               (concat (map turn_updates
                  (prompt_turns sessions session (inputs_of (case_input promptCase)) w))))
            (after_turns \<lparr>allUpdates = [], lastExitInfo = None, lastOutput = []\<rparr>
               (prompt_turns sessions session (inputs_of (case_input promptCase)) w)))
         \<lparr>cr_score := score\<rparr>"
    by (rule try_case_Inr_turns)
  let ?rs = "prompt_turns sessions session (inputs_of (case_input promptCase)) w"
  have flag: "cr_toolErrors r \<longleftrightarrow>
      (\<exists>tc. ToolCallStep tc \<in> set (cr_trajectory r) \<and> tc_status tc = ''failed'') \<or>
      (?rs \<noteq> [] \<and> (\<exists>e. turn_exitInfo (last ?rs) = Some e \<and> timedOut e))"
    unfolding r
    by (cases "?rs = []"; cases "turn_exitInfo (last ?rs)")
       (simp_all add: hasToolErrors_iff after_turns_def)
  have "cr_trajectory r =
      extractTrajectory (\<lambda>n. now (clock_reads s + 3 + n)) startTime (concat (map turn_updates ?rs))"
    unfolding r by simp
  moreover have "meta_exit (cr_metadata r) = (if ?rs = [] then None else turn_exitInfo (last ?rs))"
    unfolding r by (simp add: after_turns_def)
  ultimately show "\<exists>session w.
         sessions_create sessions workingDir (world s) = (Inr session, w) \<and>
         (let rs = prompt_turns sessions session (inputs_of (case_input promptCase)) w
          in length rs = length (inputs_of (case_input promptCase)) \<and>
             cr_trajectory r =
               extractTrajectory (\<lambda>n. now (clock_reads s + 3 + n)) startTime
                 (concat (map turn_updates rs)) \<and>
             meta_exit (cr_metadata r) = (if rs = [] then None else turn_exitInfo (last rs)) \<and>
             (cr_toolErrors r \<longleftrightarrow>
                (\<exists>tc. ToolCallStep tc \<in> set (cr_trajectory r) \<and> tc_status tc = ''failed'') \<or>
                (rs \<noteq> [] \<and> (\<exists>e. turn_exitInfo (last rs) = Some e \<and> timedOut e))))"
    unfolding Let_def using c l flag by blast
qed

text \<open>
  C5. \<open>extractOutput\<close> is the newline-joined concatenation of the contents of the
  message steps, in trajectory order, hence empty when there is no message step. The
  output of the record of a case that ran to its end is the output text the session
  manager returned for the last turn when that text is not empty, and otherwise (no
  turn, or a last turn without output text) the value derived from the trajectory.
\<close>

theorem extractOutput_joins_messages:
  "extractOutput traj = newline_joined (message_contents traj) \<and>
   ((\<forall>step \<in> set traj. step_type step \<noteq> Kmessage) \<longrightarrow> extractOutput traj = []) \<and>
   cr_output (build_result agent promptCase startTime endTime sessionCreation traj acc) =
     (if lastOutput acc = [] then extractOutput traj else lastOutput acc) \<and>
   (try_case now sessions grader agent workingDir promptCase startTime s = (Inr r, s') \<longrightarrow>
      (\<exists>session w.
         sessions_create sessions workingDir (world s) = (Inr session, w) \<and>
         (let rs = prompt_turns sessions session (inputs_of (case_input promptCase)) w
          in length rs = length (inputs_of (case_input promptCase)) \<and>
             cr_trajectory r =
               extractTrajectory (\<lambda>n. now (clock_reads s + 3 + n)) startTime
                 (concat (map turn_updates rs)) \<and>
             cr_output r =
               (if rs = [] \<or> turn_output (last rs) = [] then extractOutput (cr_trajectory r)
                else turn_output (last rs)))))"
proof -
  have a: "extractOutput traj = newline_joined (message_contents traj)"
    by (simp add: extractOutput_def message_contents_filter join_newline_joined)
  have b: "extractOutput traj = []" if "\<forall>step \<in> set traj. step_type step \<noteq> Kmessage"
    using that by (simp add: a message_contents_none)
  have c: "\<exists>session w.
         sessions_create sessions workingDir (world s) = (Inr session, w) \<and>
         (let rs = prompt_turns sessions session (inputs_of (case_input promptCase)) w
          in length rs = length (inputs_of (case_input promptCase)) \<and>
             cr_trajectory r =
               extractTrajectory (\<lambda>n. now (clock_reads s + 3 + n)) startTime
                 (concat (map turn_updates rs)) \<and>
             cr_output r =
               (if rs = [] \<or> turn_output (last rs) = [] then extractOutput (cr_trajectory r)
                else turn_output (last rs)))"
    if "try_case now sessions grader agent workingDir promptCase startTime s = (Inr r, s')"
  proof -
    from that obtain session w endTime sc score where
      c: "sessions_create sessions workingDir (world s) = (Inr session, w)" and
      l: "length (prompt_turns sessions session (inputs_of (case_input promptCase)) w) =
         length (inputs_of (case_input promptCase))" and
      r: "r = (build_result agent promptCase startTime endTime sc
              (extractTrajectory (\<lambda>n. now (clock_reads s + 3 + n)) startTime
                 (concat (map turn_updates
                    (prompt_turns sessions session (inputs_of (case_input promptCase)) w))))
              (after_turns \<lparr>allUpdates = [], lastExitInfo = None, lastOutput = []\<rparr>
                 (prompt_turns sessions session (inputs_of (case_input promptCase)) w)))
           \<lparr>cr_score := score\<rparr>"
      by (rule try_case_Inr_turns)
    let ?rs = "prompt_turns sessions session (inputs_of (case_input promptCase)) w"
    have "cr_trajectory r =
        extractTrajectory (\<lambda>n. now (clock_reads s + 3 + n)) startTime
          (concat (map turn_updates ?rs))"
      unfolding r by simp
    moreover have "cr_output r =
        (if ?rs = [] \<or> turn_output (last ?rs) = [] then extractOutput (cr_trajectory r)
         else turn_output (last ?rs))"
      unfolding r by (simp add: after_turns_def)
    ultimately show ?thesis unfolding Let_def using c l by blast
  qed
  from a b c show ?thesis by simp
qed

lemmas capture_defs =
  try_case_def then_try_def no_throw_def Date_now_def await_def run_extractTrajectory_def
  apply_grader_def build_result_def error_result_def example_sessions_def broken_sessions_def
  example_case_def example_state_def extractTrajectory_def extractRun_def init_state_def
  processUpdate_def toolCallId_of_def after_clock_reads_def push_def Let_def

lemmas turn_example_defs =
  timeout_then_ok_sessions_def two_turn_case_def counting_state_def

theorem toolErrors_from_last_turn_witness:
  "try_case forward_clock timeout_then_ok_sessions None ''agent'' ''/work'' example_case 0
     counting_state =
     (Inr (projr (fst (try_case forward_clock timeout_then_ok_sessions None ''agent'' ''/work''
                         example_case 0 counting_state))),
      snd (try_case forward_clock timeout_then_ok_sessions None ''agent'' ''/work''
             example_case 0 counting_state)) \<and>
   cr_toolErrors (projr (fst (try_case forward_clock timeout_then_ok_sessions None ''agent''
                                ''/work'' example_case 0 counting_state)))"
proof -
  have e: "try_case forward_clock timeout_then_ok_sessions None ''agent'' ''/work'' example_case 0
      counting_state =
     (Inr (projr (fst (try_case forward_clock timeout_then_ok_sessions None ''agent'' ''/work''
                         example_case 0 counting_state))),
      snd (try_case forward_clock timeout_then_ok_sessions None ''agent'' ''/work''
             example_case 0 counting_state))"
    by (simp add: capture_defs turn_example_defs forward_clock_def)
  from toolErrors_from_last_turn
    [where now = forward_clock and sessions = timeout_then_ok_sessions
      and grader = None and agent = "''agent''" and workingDir = "''/work''"
      and promptCase = example_case and startTime = 0 and s = counting_state
      and r = "projr (fst (try_case forward_clock timeout_then_ok_sessions None ''agent''
                         ''/work'' example_case 0 counting_state))"
      and s' = "snd (try_case forward_clock timeout_then_ok_sessions None ''agent'' ''/work''
             example_case 0 counting_state)"] e
  have "cr_toolErrors (projr (fst (try_case forward_clock timeout_then_ok_sessions None ''agent''
                                ''/work'' example_case 0 counting_state)))"
    by (simp add: turn_example_defs example_case_def Let_def)
  with e show ?thesis by blast
qed

theorem extractOutput_joins_messages_witness:
  "extractOutput [Message ''a'' 0, Thought ''t'' 1, Message ''b'' 2] = ''a'' @ [CHR 0x0A] @ ''b'' \<and>
   extractOutput [Thought ''t'' 1, Plan [] 2] = [] \<and>
   try_case forward_clock timeout_then_ok_sessions None ''agent'' ''/work'' two_turn_case 0
     counting_state =
     (Inr (projr (fst (try_case forward_clock timeout_then_ok_sessions None ''agent'' ''/work''
                         two_turn_case 0 counting_state))),
      snd (try_case forward_clock timeout_then_ok_sessions None ''agent'' ''/work''
             two_turn_case 0 counting_state)) \<and>
   cr_output (projr (fst (try_case forward_clock timeout_then_ok_sessions None ''agent''
                            ''/work'' two_turn_case 0 counting_state))) = ''final'' \<and>
   try_case forward_clock example_sessions None ''agent'' ''/work'' example_case 0
     example_state =
     (Inr (projr (fst (try_case forward_clock example_sessions None ''agent'' ''/work''
                         example_case 0 example_state))),
      snd (try_case forward_clock example_sessions None ''agent'' ''/work''
             example_case 0 example_state)) \<and>
   cr_output (projr (fst (try_case forward_clock example_sessions None ''agent''
                            ''/work'' example_case 0 example_state))) = ''done''"
proof -
  have a: "extractOutput [Message ''a'' 0, Thought ''t'' 1, Message ''b'' 2] =
      ''a'' @ [CHR 0x0A] @ ''b''"
    "extractOutput [Thought ''t'' 1, Plan [] 2] = []"
    using extractOutput_joins_messages
        [where traj = "[Message ''a'' 0, Thought ''t'' 1, Message ''b'' 2]", THEN conjunct1]
      extractOutput_joins_messages
        [where traj = "[Thought ''t'' 1, Plan [] 2]", THEN conjunct2, THEN conjunct1]
    by simp_all
  have e1: "try_case forward_clock timeout_then_ok_sessions None ''agent'' ''/work''
      two_turn_case 0 counting_state =
     (Inr (projr (fst (try_case forward_clock timeout_then_ok_sessions None ''agent'' ''/work''
                         two_turn_case 0 counting_state))),
      snd (try_case forward_clock timeout_then_ok_sessions None ''agent'' ''/work''
             two_turn_case 0 counting_state))"
    by (simp add: capture_defs turn_example_defs forward_clock_def)
  from extractOutput_joins_messages
    [where now = forward_clock and sessions = timeout_then_ok_sessions
      and grader = None and agent = "''agent''" and workingDir = "''/work''"
      and promptCase = two_turn_case and startTime = 0 and s = counting_state
      and r = "projr (fst (try_case forward_clock timeout_then_ok_sessions None ''agent''
                         ''/work'' two_turn_case 0 counting_state))"
      and s' = "snd (try_case forward_clock timeout_then_ok_sessions None ''agent'' ''/work''
             two_turn_case 0 counting_state)"] e1
  have o1: "cr_output (projr (fst (try_case forward_clock timeout_then_ok_sessions None ''agent''
                            ''/work'' two_turn_case 0 counting_state))) = ''final''"
    by (simp add: turn_example_defs Let_def)
  have e2: "try_case forward_clock example_sessions None ''agent'' ''/work'' example_case 0
      example_state =
     (Inr (projr (fst (try_case forward_clock example_sessions None ''agent'' ''/work''
                         example_case 0 example_state))),
      snd (try_case forward_clock example_sessions None ''agent'' ''/work''
             example_case 0 example_state))"
    by (simp add: capture_defs forward_clock_def)
  from extractOutput_joins_messages
    [where now = forward_clock and sessions = example_sessions
      and grader = None and agent = "''agent''" and workingDir = "''/work''"
      and promptCase = example_case and startTime = 0 and s = example_state
      and r = "projr (fst (try_case forward_clock example_sessions None ''agent''
                         ''/work'' example_case 0 example_state))"
      and s' = "snd (try_case forward_clock example_sessions None ''agent'' ''/work''
             example_case 0 example_state)"] e2
  have o2: "cr_output (projr (fst (try_case forward_clock example_sessions None ''agent''
                            ''/work'' example_case 0 example_state))) = ''done''"
    by (simp add: example_sessions_def example_case_def example_state_def Let_def
        extractTrajectory_def extractRun_def init_state_def processUpdate_def
        toolCallId_of_def after_clock_reads_def push_def extractOutput_def)
  from a e1 o1 e2 o2 show ?thesis by blast
qed

section \<open>Failing cases and the run as a whole\<close>




















end
